theory Spec2Isabelle
  imports Complex_Main "HOL-Library.Word"
begin

unbundle bit_operations_syntax

section \<open>JavaScript numbers\<close>

text \<open>
  A JavaScript number is modelled as a real number, one of the two infinities, or NaN.
  The arithmetic operators are exact on the finite values and follow the IEEE rules on
  the others; the rounding of their results is not modelled, and the two zeros are
  identified.  The constants of the program are the doubles it holds.  \<open>Math.sqrt\<close>,
  \<open>Math.cos\<close>, \<open>Math.sin\<close>, \<open>Math.acos\<close> and \<open>Math.atan2\<close> are the real functions.
\<close>

datatype jsnum = Fin real | PInf | NInf | NaN

instantiation jsnum :: "{zero, one, plus, uminus, times, inverse, ord}"
begin

definition zero_jsnum :: jsnum where
  "zero_jsnum = Fin 0"

definition one_jsnum :: jsnum where
  "one_jsnum = Fin 1"

fun plus_jsnum :: "jsnum \<Rightarrow> jsnum \<Rightarrow> jsnum" where
  "plus_jsnum (Fin a) (Fin b) = Fin (a + b)"
| "plus_jsnum NaN _ = NaN"
| "plus_jsnum _ NaN = NaN"
| "plus_jsnum PInf NInf = NaN"
| "plus_jsnum NInf PInf = NaN"
| "plus_jsnum PInf _ = PInf"
| "plus_jsnum _ PInf = PInf"
| "plus_jsnum NInf _ = NInf"
| "plus_jsnum _ NInf = NInf"

fun uminus_jsnum :: "jsnum \<Rightarrow> jsnum" where
  "uminus_jsnum (Fin a) = Fin (- a)"
| "uminus_jsnum PInf = NInf"
| "uminus_jsnum NInf = PInf"
| "uminus_jsnum NaN = NaN"

fun times_jsnum :: "jsnum \<Rightarrow> jsnum \<Rightarrow> jsnum" where
  "times_jsnum (Fin a) (Fin b) = Fin (a * b)"
| "times_jsnum NaN _ = NaN"
| "times_jsnum _ NaN = NaN"
| "times_jsnum (Fin a) PInf = (if a = 0 then NaN else if 0 < a then PInf else NInf)"
| "times_jsnum (Fin a) NInf = (if a = 0 then NaN else if 0 < a then NInf else PInf)"
| "times_jsnum PInf (Fin b) = (if b = 0 then NaN else if 0 < b then PInf else NInf)"
| "times_jsnum NInf (Fin b) = (if b = 0 then NaN else if 0 < b then NInf else PInf)"
| "times_jsnum PInf PInf = PInf"
| "times_jsnum PInf NInf = NInf"
| "times_jsnum NInf PInf = NInf"
| "times_jsnum NInf NInf = PInf"

text \<open>Division; a non-zero dividend over zero takes the sign of the dividend.\<close>

fun divide_jsnum :: "jsnum \<Rightarrow> jsnum \<Rightarrow> jsnum" where
  "divide_jsnum (Fin a) (Fin b) =
     (if b \<noteq> 0 then Fin (a / b) else if a = 0 then NaN else if 0 < a then PInf else NInf)"
| "divide_jsnum NaN _ = NaN"
| "divide_jsnum _ NaN = NaN"
| "divide_jsnum (Fin a) PInf = Fin 0"
| "divide_jsnum (Fin a) NInf = Fin 0"
| "divide_jsnum PInf (Fin b) = (if 0 \<le> b then PInf else NInf)"
| "divide_jsnum NInf (Fin b) = (if 0 \<le> b then NInf else PInf)"
| "divide_jsnum PInf PInf = NaN"
| "divide_jsnum PInf NInf = NaN"
| "divide_jsnum NInf PInf = NaN"
| "divide_jsnum NInf NInf = NaN"

fun inverse_jsnum :: "jsnum \<Rightarrow> jsnum" where
  "inverse_jsnum (Fin a) = (if a \<noteq> 0 then Fin (1 / a) else PInf)"
| "inverse_jsnum PInf = Fin 0"
| "inverse_jsnum NInf = Fin 0"
| "inverse_jsnum NaN = NaN"

fun less_jsnum :: "jsnum \<Rightarrow> jsnum \<Rightarrow> bool" where
  "less_jsnum (Fin a) (Fin b) = (a < b)"
| "less_jsnum NaN _ = False"
| "less_jsnum _ NaN = False"
| "less_jsnum PInf _ = False"
| "less_jsnum _ NInf = False"
| "less_jsnum NInf _ = True"
| "less_jsnum _ PInf = True"

fun less_eq_jsnum :: "jsnum \<Rightarrow> jsnum \<Rightarrow> bool" where
  "less_eq_jsnum (Fin a) (Fin b) = (a \<le> b)"
| "less_eq_jsnum NaN _ = False"
| "less_eq_jsnum _ NaN = False"
| "less_eq_jsnum NInf _ = True"
| "less_eq_jsnum _ PInf = True"
| "less_eq_jsnum PInf _ = False"
| "less_eq_jsnum _ NInf = False"

instance ..

end

instantiation jsnum :: minus
begin

definition minus_jsnum :: "jsnum \<Rightarrow> jsnum \<Rightarrow> jsnum" where
  "minus_jsnum a b = a + (- b)"

instance ..

end

text \<open>Addition is associative and commutative, with NaN absorbing.\<close>

instance jsnum :: comm_monoid_add
proof
  show "0 + x = x" for x :: jsnum
    by (cases x) (simp_all add: zero_jsnum_def)
  show "x + y = y + x" for x y :: jsnum
    by (cases x; cases y) simp_all
  show "x + y + z = x + (y + z)" for x y z :: jsnum
    by (cases x; cases y; cases z) simp_all
qed

fun isNaN :: "jsnum \<Rightarrow> bool" where
  "isNaN NaN = True"
| "isNaN _ = False"

fun isFinite :: "jsnum \<Rightarrow> bool" where
  "isFinite (Fin a) = True"
| "isFinite _ = False"

fun isInteger :: "jsnum \<Rightarrow> bool" where
  "isInteger (Fin a) = (a = of_int \<lfloor>a\<rfloor>)"
| "isInteger _ = False"

fun Math_sqrt :: "jsnum \<Rightarrow> jsnum" where
  "Math_sqrt (Fin a) = (if a < 0 then NaN else Fin (sqrt a))"
| "Math_sqrt PInf = PInf"
| "Math_sqrt NInf = NaN"
| "Math_sqrt NaN = NaN"

fun Math_cos :: "jsnum \<Rightarrow> jsnum" where
  "Math_cos (Fin a) = Fin (cos a)"
| "Math_cos _ = NaN"

fun Math_sin :: "jsnum \<Rightarrow> jsnum" where
  "Math_sin (Fin a) = Fin (sin a)"
| "Math_sin _ = NaN"

fun Math_abs :: "jsnum \<Rightarrow> jsnum" where
  "Math_abs (Fin a) = Fin \<bar>a\<bar>"
| "Math_abs PInf = PInf"
| "Math_abs NInf = PInf"
| "Math_abs NaN = NaN"




subsection \<open>32-bit integer operators\<close>

text \<open>
  The bitwise operators convert their operands to 32-bit two's complement integers, and
  the shifts use only the low five bits of the shift count.  Indices and masks are
  integral numbers, modelled as \<open>int\<close>.
\<close>

definition js_and :: "int \<Rightarrow> int \<Rightarrow> int" where
  "js_and a b = sint ((word_of_int a :: 32 word) AND word_of_int b)"

definition js_or :: "int \<Rightarrow> int \<Rightarrow> int" where
  "js_or a b = sint ((word_of_int a :: 32 word) OR word_of_int b)"

definition js_not :: "int \<Rightarrow> int" where
  "js_not a = sint (NOT (word_of_int a :: 32 word))"

definition js_shl :: "int \<Rightarrow> int \<Rightarrow> int" where
  "js_shl a k = sint (push_bit (nat (k mod 32)) (word_of_int a :: 32 word))"

definition js_sar :: "int \<Rightarrow> int \<Rightarrow> int" where
  "js_sar a k = sint (signed_drop_bit (nat (k mod 32)) (word_of_int a :: 32 word))"

subsection \<open>Typed arrays\<close>

text \<open>
  A \<open>Float64Array\<close> is a list of numbers of fixed length.  A read outside the array
  yields \<open>undefined\<close>, which every arithmetic use below converts to NaN; a write outside
  the array is ignored.
\<close>

definition f64_get :: "jsnum list \<Rightarrow> int \<Rightarrow> jsnum" where
  "f64_get a i = (if 0 \<le> i \<and> i < int (length a) then a ! nat i else NaN)"

definition f64_set :: "jsnum list \<Rightarrow> int \<Rightarrow> jsnum \<Rightarrow> jsnum list" where
  "f64_set a i v = (if 0 \<le> i \<and> i < int (length a) then a[nat i := v] else a)"

section \<open>Complex arithmetic (complex.ts)\<close>

record Complex =
  creal :: jsnum
  cimag :: jsnum

definition complex :: "jsnum \<Rightarrow> jsnum \<Rightarrow> Complex" where
  "complex re im = \<lparr>creal = re, cimag = im\<rparr>"

definition add :: "Complex \<Rightarrow> Complex \<Rightarrow> Complex" where
  "add a b = \<lparr>creal = creal a + creal b, cimag = cimag a + cimag b\<rparr>"

definition multiply :: "Complex \<Rightarrow> Complex \<Rightarrow> Complex" where
  "multiply a b =
     \<lparr>creal = creal a * creal b - cimag a * cimag b,
      cimag = creal a * cimag b + cimag a * creal b\<rparr>"

definition conjugate :: "Complex \<Rightarrow> Complex" where
  "conjugate a = \<lparr>creal = creal a, cimag = - cimag a\<rparr>"

definition magnitudeSquared :: "Complex \<Rightarrow> jsnum" where
  "magnitudeSquared a = creal a * creal a + cimag a * cimag a"


definition fromPolar :: "jsnum \<Rightarrow> jsnum \<Rightarrow> Complex" where
  "fromPolar r theta = \<lparr>creal = r * Math_cos theta, cimag = r * Math_sin theta\<rparr>"

definition scale :: "Complex \<Rightarrow> jsnum \<Rightarrow> Complex" where
  "scale a scalar = \<lparr>creal = creal a * scalar, cimag = cimag a * scalar\<rparr>"

definition ZERO :: Complex where
  "ZERO = \<lparr>creal = 0, cimag = 0\<rparr>"

definition ONE :: Complex where
  "ONE = \<lparr>creal = 1, cimag = 0\<rparr>"

section \<open>Matrix operations (matrix.ts)\<close>

text \<open>
  A matrix is a list of rows.  The functions below index their arguments the way the
  source does; they are used on rectangular, non-empty matrices, where every index is in
  range.
\<close>

type_synonym Matrix = "Complex list list"

definition createMatrix :: "nat \<Rightarrow> nat \<Rightarrow> Complex \<Rightarrow> Matrix" where
  "createMatrix rows cols init = replicate rows (replicate cols init)"

text \<open>The assignment \<open>m[i][j] = v\<close>.\<close>

definition mat_set :: "Matrix \<Rightarrow> nat \<Rightarrow> nat \<Rightarrow> Complex \<Rightarrow> Matrix" where
  "mat_set m i j v = m[i := (m ! i)[j := v]]"

definition identity :: "nat \<Rightarrow> Matrix" where
  "identity n =
     fold (\<lambda>i result. mat_set result i i (complex 1 0)) [0..<n] (createMatrix n n ZERO)"

definition matrixMultiply :: "Matrix \<Rightarrow> Matrix \<Rightarrow> Matrix" where
  "matrixMultiply a b =
     (let rowsA = length a; colsA = length (a ! 0); colsB = length (b ! 0)
      in fold (\<lambda>i result.
           fold (\<lambda>j result.
             mat_set result i j
               (fold (\<lambda>k sum. add sum (multiply (a ! i ! k) (b ! k ! j))) [0..<colsA] ZERO))
             [0..<colsB] result)
           [0..<rowsA] (createMatrix rowsA colsB ZERO))"

definition matrixVectorMultiply :: "Matrix \<Rightarrow> Complex list \<Rightarrow> Complex list" where
  "matrixVectorMultiply m v =
     fold (\<lambda>i result. result @
             [fold (\<lambda>j sum. add sum (multiply (m ! i ! j) (v ! j))) [0..<length v] ZERO])
       [0..<length m] []"

definition conjugateTranspose :: "Matrix \<Rightarrow> Matrix" where
  "conjugateTranspose m =
     (let rows = length m; cols = length (m ! 0)
      in fold (\<lambda>i result.
           fold (\<lambda>j result. mat_set result j i (conjugate (m ! i ! j))) [0..<cols] result)
           [0..<rows] (createMatrix cols rows ZERO))"

definition tensorProduct :: "Matrix \<Rightarrow> Matrix \<Rightarrow> Matrix" where
  "tensorProduct a b =
     (let rowsA = length a; colsA = length (a ! 0);
          rowsB = length b; colsB = length (b ! 0)
      in fold (\<lambda>i result.
           fold (\<lambda>j result.
             fold (\<lambda>k result.
               fold (\<lambda>l result.
                 mat_set result (i * rowsB + k) (j * colsB + l)
                   (multiply (a ! i ! j) (b ! k ! l)))
                 [0..<colsB] result)
               [0..<rowsB] result)
             [0..<colsA] result)
           [0..<rowsA] (createMatrix (rowsA * rowsB) (colsA * colsB) ZERO))"

text \<open>
  \<open>isUnitary\<close> returns false at the first entry whose distance from the identity
  exceeds \<open>epsilon\<close>, and true when there is none.
\<close>

definition isUnitary :: "Matrix \<Rightarrow> jsnum \<Rightarrow> bool" where
  "isUnitary m epsilon =
     (let n = length m;
          mDagger = conjugateTranspose m;
          product = matrixMultiply mDagger m;
          ident = identity n
      in list_all (\<lambda>i. list_all (\<lambda>j.
           \<not> (epsilon <
                Math_abs (creal (product ! i ! j) - creal (ident ! i ! j))
              + Math_abs (cimag (product ! i ! j) - cimag (ident ! i ! j))))
           [0..<n]) [0..<n])"

text \<open>
  The property \<open>isUnitary\<close> tests, stated entry by entry: \<open>p\<close> is an \<open>n\<close> by \<open>n\<close>
  matrix of finite numbers, each within \<open>eps\<close> of the entry of the identity matrix, in
  the real and in the imaginary part.
\<close>

definition within_identity :: "nat \<Rightarrow> real \<Rightarrow> Matrix \<Rightarrow> bool" where
  "within_identity n eps p =
     (length p = n \<and> list_all (\<lambda>row. length row = n) p \<and>
      list_all (\<lambda>i. list_all (\<lambda>j.
          case (creal (p ! i ! j), cimag (p ! i ! j)) of
            (Fin a, Fin b) \<Rightarrow> \<bar>a - (if i = j then 1 else 0)\<bar> \<le> eps \<and> \<bar>b\<bar> \<le> eps
          | _ \<Rightarrow> False)
        [0..<n]) [0..<n])"

section \<open>The gate library (gates.ts)\<close>

text \<open>
  Two constants are held as doubles.  \<open>SQRT2_INV\<close> is \<open>1 / Math.sqrt(2)\<close>: the square
  root and the quotient are correctly rounded, which gives 0.7071067811865475, the
  double \<open>1592262918131443 / 2 ^ 51\<close>.  It is smaller than the reciprocal of the square
  root of two, so twice its square is not one.  \<open>Math.PI\<close> is 3.141592653589793, the
  double \<open>884279719003555 / 2 ^ 48\<close>.
\<close>

definition SQRT2_INV :: jsnum where
  "SQRT2_INV = Fin (1592262918131443 / 2251799813685248)"

definition Math_PI :: jsnum where
  "Math_PI = Fin (884279719003555 / 281474976710656)"

definition X :: Matrix where
  "X = [[complex 0 0, complex 1 0],
        [complex 1 0, complex 0 0]]"

definition Y :: Matrix where
  "Y = [[complex 0 0, complex 0 (- 1)],
        [complex 0 1, complex 0 0]]"

definition Z :: Matrix where
  "Z = [[complex 1 0, complex 0 0],
        [complex 0 0, complex (- 1) 0]]"

definition H :: Matrix where
  "H = [[complex SQRT2_INV 0, complex SQRT2_INV 0],
        [complex SQRT2_INV 0, complex (- SQRT2_INV) 0]]"

definition S :: Matrix where
  "S = [[complex 1 0, complex 0 0],
        [complex 0 0, complex 0 1]]"

definition SDag :: Matrix where
  "SDag = [[complex 1 0, complex 0 0],
           [complex 0 0, complex 0 (- 1)]]"

definition T :: Matrix where
  "T = [[complex 1 0, complex 0 0],
        [complex 0 0, fromPolar 1 (Math_PI / Fin 4)]]"

definition TDag :: Matrix where
  "TDag = [[complex 1 0, complex 0 0],
           [complex 0 0, fromPolar 1 (- Math_PI / Fin 4)]]"

definition I :: Matrix where
  "I = identity 2"

definition Rx :: "jsnum \<Rightarrow> Matrix" where
  "Rx theta =
     (let cos = Math_cos (theta / Fin 2); sin = Math_sin (theta / Fin 2)
      in [[complex cos 0, complex 0 (- sin)],
          [complex 0 (- sin), complex cos 0]])"

definition Ry :: "jsnum \<Rightarrow> Matrix" where
  "Ry theta =
     (let cos = Math_cos (theta / Fin 2); sin = Math_sin (theta / Fin 2)
      in [[complex cos 0, complex (- sin) 0],
          [complex sin 0, complex cos 0]])"

definition Rz :: "jsnum \<Rightarrow> Matrix" where
  "Rz theta =
     [[fromPolar 1 (- theta / Fin 2), complex 0 0],
      [complex 0 0, fromPolar 1 (theta / Fin 2)]]"

definition Phase :: "jsnum \<Rightarrow> Matrix" where
  "Phase phi =
     [[complex 1 0, complex 0 0],
      [complex 0 0, fromPolar 1 phi]]"

definition U3 :: "jsnum \<Rightarrow> jsnum \<Rightarrow> jsnum \<Rightarrow> Matrix" where
  "U3 theta phi lambda =
     (let cos = Math_cos (theta / Fin 2); sin = Math_sin (theta / Fin 2)
      in [[complex cos 0,
           \<lparr>creal = - sin * Math_cos lambda, cimag = - sin * Math_sin lambda\<rparr>],
          [\<lparr>creal = sin * Math_cos phi, cimag = sin * Math_sin phi\<rparr>,
           \<lparr>creal = cos * Math_cos (phi + lambda), cimag = cos * Math_sin (phi + lambda)\<rparr>]])"

definition CNOT :: Matrix where
  "CNOT = [[complex 1 0, complex 0 0, complex 0 0, complex 0 0],
           [complex 0 0, complex 1 0, complex 0 0, complex 0 0],
           [complex 0 0, complex 0 0, complex 0 0, complex 1 0],
           [complex 0 0, complex 0 0, complex 1 0, complex 0 0]]"

definition CZ :: Matrix where
  "CZ = [[complex 1 0, complex 0 0, complex 0 0, complex 0 0],
         [complex 0 0, complex 1 0, complex 0 0, complex 0 0],
         [complex 0 0, complex 0 0, complex 1 0, complex 0 0],
         [complex 0 0, complex 0 0, complex 0 0, complex (- 1) 0]]"

definition SWAP :: Matrix where
  "SWAP = [[complex 1 0, complex 0 0, complex 0 0, complex 0 0],
           [complex 0 0, complex 0 0, complex 1 0, complex 0 0],
           [complex 0 0, complex 1 0, complex 0 0, complex 0 0],
           [complex 0 0, complex 0 0, complex 0 0, complex 1 0]]"

definition iSWAP :: Matrix where
  "iSWAP = [[complex 1 0, complex 0 0, complex 0 0, complex 0 0],
            [complex 0 0, complex 0 0, complex 0 1, complex 0 0],
            [complex 0 0, complex 0 1, complex 0 0, complex 0 0],
            [complex 0 0, complex 0 0, complex 0 0, complex 1 0]]"

definition CPhase :: "jsnum \<Rightarrow> Matrix" where
  "CPhase phi =
     [[complex 1 0, complex 0 0, complex 0 0, complex 0 0],
      [complex 0 0, complex 1 0, complex 0 0, complex 0 0],
      [complex 0 0, complex 0 0, complex 1 0, complex 0 0],
      [complex 0 0, complex 0 0, complex 0 0, fromPolar 1 phi]]"

definition SX :: Matrix where
  "SX = [[complex (Fin 0.5) (Fin 0.5), complex (Fin 0.5) (- Fin 0.5)],
         [complex (Fin 0.5) (- Fin 0.5), complex (Fin 0.5) (Fin 0.5)]]"

definition SXDag :: Matrix where
  "SXDag = [[complex (Fin 0.5) (- Fin 0.5), complex (Fin 0.5) (Fin 0.5)],
            [complex (Fin 0.5) (Fin 0.5), complex (Fin 0.5) (- Fin 0.5)]]"

definition RXX :: "jsnum \<Rightarrow> Matrix" where
  "RXX theta =
     (let cos = Math_cos (theta / Fin 2); sin = Math_sin (theta / Fin 2);
          m = identity 4;
          m = mat_set m 0 0 (complex cos 0);
          m = mat_set m 0 3 (complex 0 (- sin));
          m = mat_set m 1 1 (complex cos 0);
          m = mat_set m 1 2 (complex 0 (- sin));
          m = mat_set m 2 1 (complex 0 (- sin));
          m = mat_set m 2 2 (complex cos 0);
          m = mat_set m 3 0 (complex 0 (- sin));
          m = mat_set m 3 3 (complex cos 0)
      in m)"

definition RYY :: "jsnum \<Rightarrow> Matrix" where
  "RYY theta =
     (let cos = Math_cos (theta / Fin 2); sin = Math_sin (theta / Fin 2);
          m = identity 4;
          m = mat_set m 0 0 (complex cos 0);
          m = mat_set m 0 3 (complex 0 sin);
          m = mat_set m 1 1 (complex cos 0);
          m = mat_set m 1 2 (complex 0 (- sin));
          m = mat_set m 2 1 (complex 0 (- sin));
          m = mat_set m 2 2 (complex cos 0);
          m = mat_set m 3 0 (complex 0 sin);
          m = mat_set m 3 3 (complex cos 0)
      in m)"

definition RZZ :: "jsnum \<Rightarrow> Matrix" where
  "RZZ theta =
     (let m = identity 4;
          p = fromPolar 1 (- theta / Fin 2);
          q = fromPolar 1 (theta / Fin 2);
          m = mat_set m 0 0 p;
          m = mat_set m 1 1 q;
          m = mat_set m 2 2 q;
          m = mat_set m 3 3 p
      in m)"

definition RCCX :: Matrix where
  "RCCX =
     (let m = identity 8;
          m = mat_set m 6 6 (complex 0 0);
          m = mat_set m 6 7 (complex 1 0);
          m = mat_set m 7 6 (complex 1 0);
          m = mat_set m 7 7 (complex 0 0);
          m = mat_set m 5 5 (complex (- 1) 0)
      in m)"

definition Toffoli :: Matrix where
  "Toffoli =
     (let m = identity 8;
          m = mat_set m 6 6 (complex 0 0);
          m = mat_set m 6 7 (complex 1 0);
          m = mat_set m 7 6 (complex 1 0);
          m = mat_set m 7 7 (complex 0 0)
      in m)"

definition Fredkin :: Matrix where
  "Fredkin =
     (let m = identity 8;
          m = mat_set m 5 5 (complex 0 0);
          m = mat_set m 5 6 (complex 1 0);
          m = mat_set m 6 5 (complex 1 0);
          m = mat_set m 6 6 (complex 0 0)
      in m)"

definition CCZ :: Matrix where
  "CCZ = (let m = identity 8; m = mat_set m 7 7 (complex (- 1) 0) in m)"

definition CH :: Matrix where
  "CH =
     (let m = identity 4;
          h = H;
          m = mat_set m 2 2 (h ! 0 ! 0);
          m = mat_set m 2 3 (h ! 0 ! 1);
          m = mat_set m 3 2 (h ! 1 ! 0);
          m = mat_set m 3 3 (h ! 1 ! 1)
      in m)"

text \<open>
  A gate's matrix is a constant or a function of the parameter list.  \<open>param p k\<close> is
  the read \<open>p[k]\<close>, which is \<open>undefined\<close> past the end and then NaN in arithmetic;
  \<open>param_or_zero p k\<close> is \<open>p[k] || 0\<close>.  The display fields \<open>symbol\<close> and
  \<open>description\<close> are left out.
\<close>

datatype GateMatrix = Constant Matrix | Parameterized "jsnum list \<Rightarrow> Matrix"

record GateInfo =
  name :: string
  qubits :: nat
  matrix :: GateMatrix
  params :: "string list option"

definition param :: "jsnum list \<Rightarrow> nat \<Rightarrow> jsnum" where
  "param p k = (if k < length p then p ! k else NaN)"

definition param_or_zero :: "jsnum list \<Rightarrow> nat \<Rightarrow> jsnum" where
  "param_or_zero p k =
     (if k < length p \<and> p ! k \<noteq> NaN \<and> p ! k \<noteq> Fin 0 then p ! k else Fin 0)"

definition constant_gate :: "string \<Rightarrow> nat \<Rightarrow> Matrix \<Rightarrow> GateInfo" where
  "constant_gate nm k m = \<lparr>name = nm, qubits = k, matrix = Constant m, params = None\<rparr>"

definition parameterized_gate ::
  "string \<Rightarrow> nat \<Rightarrow> (jsnum list \<Rightarrow> Matrix) \<Rightarrow> string list \<Rightarrow> GateInfo" where
  "parameterized_gate nm k f ps =
     \<lparr>name = nm, qubits = k, matrix = Parameterized f, params = Some ps\<rparr>"

text \<open>
  The table of the extended gate file, in its order.  The table of lib/quantum/gates.ts
  is the sublist of its entries I, X, Y, Z, H, S, T, Rx, Ry, Rz, CNOT, CZ, SWAP,
  Toffoli and Fredkin, with the same values.
\<close>

definition GATE_LIBRARY :: "(string \<times> GateInfo) list" where
  "GATE_LIBRARY =
    [(''I'', constant_gate ''Identity'' 1 I),
     (''X'', constant_gate ''Pauli-X'' 1 X),
     (''Y'', constant_gate ''Pauli-Y'' 1 Y),
     (''Z'', constant_gate ''Pauli-Z'' 1 Z),
     (''H'', constant_gate ''Hadamard'' 1 H),
     (''S'', constant_gate ''S Gate'' 1 S),
     (''SDag'', constant_gate ''S-dagger Gate'' 1 SDag),
     (''T'', constant_gate ''T Gate'' 1 T),
     (''TDag'', constant_gate ''T-dagger Gate'' 1 TDag),
     (''SX'', constant_gate ''SX Gate'' 1 SX),
     (''SXDag'', constant_gate ''SX-dagger Gate'' 1 SXDag),
     (''Rx'', parameterized_gate ''X Rotation'' 1 (\<lambda>p. Rx (param p 0)) [''theta'']),
     (''Ry'', parameterized_gate ''Y Rotation'' 1 (\<lambda>p. Ry (param p 0)) [''theta'']),
     (''Rz'', parameterized_gate ''Z Rotation'' 1 (\<lambda>p. Rz (param p 0)) [''theta'']),
     (''Phase'', parameterized_gate ''Phase'' 1 (\<lambda>p. Phase (param p 0)) [''phi'']),
     (''U3'', parameterized_gate ''U3 Gate'' 1
        (\<lambda>p. U3 (param p 0) (param_or_zero p 1) (param_or_zero p 2))
        [''theta'', ''phi'', ''lambda'']),
     (''CNOT'', constant_gate ''CNOT'' 2 CNOT),
     (''CZ'', constant_gate ''CZ'' 2 CZ),
     (''CH'', constant_gate ''CH'' 2 CH),
     (''SWAP'', constant_gate ''SWAP'' 2 SWAP),
     (''iSWAP'', constant_gate ''iSWAP'' 2 iSWAP),
     (''CPhase'', parameterized_gate ''CPhase'' 2 (\<lambda>p. CPhase (param p 0)) [''phi'']),
     (''RXX'', parameterized_gate ''RXX Gate'' 2 (\<lambda>p. RXX (param p 0)) [''theta'']),
     (''RYY'', parameterized_gate ''RYY Gate'' 2 (\<lambda>p. RYY (param p 0)) [''theta'']),
     (''RZZ'', parameterized_gate ''RZZ Gate'' 2 (\<lambda>p. RZZ (param p 0)) [''theta'']),
     (''Toffoli'', constant_gate ''Toffoli'' 3 Toffoli),
     (''Fredkin'', constant_gate ''Fredkin'' 3 Fredkin),
     (''CCZ'', constant_gate ''CCZ'' 3 CCZ),
     (''RCCX'', constant_gate ''RCCX'' 3 RCCX)]"

text \<open>The constant entries of the table: those whose matrix is not a function.\<close>

definition constant_gates :: "(string \<times> Matrix) list" where
  "constant_gates =
     List.map_filter
       (\<lambda>(nm, info). case matrix info of Constant m \<Rightarrow> Some (nm, m) | Parameterized f \<Rightarrow> None)
       GATE_LIBRARY"

section \<open>Failures and the validation layer (validators.ts)\<close>

text \<open>
  A thrown value is an \<open>error\<close>.  A message built from a template is the list of its
  text pieces and of the numbers (or arrays of numbers) put between them, and the details
  object of a validation error is the list of its numeric entries.
\<close>

datatype tok = Txt string | Num jsnum | Nums "jsnum list"

datatype ErrorCode =
    INVALID_QUBIT_INDEX | INVALID_QUBIT_COUNT | INVALID_GATE | INVALID_GATE_PARAMS
  | INVALID_STATE_VECTOR | STATE_NOT_NORMALIZED | DUPLICATE_QUBITS | INSUFFICIENT_QUBITS
  | MEMORY_LIMIT

datatype error =
    Error "tok list"
  | TypeError
  | RangeError
  | QuantumValidationError "tok list" ErrorCode "(string \<times> jsnum) list"

definition MAX_QUBITS :: jsnum where
  "MAX_QUBITS = Fin 20"

definition MIN_QUBITS :: jsnum where
  "MIN_QUBITS = Fin 1"

text \<open>
  \<open>Math.pow(2, a)\<close>.  The powers of two from 2^-1074 to 2^1023 are doubles; from the
  exponent 1024 the result is Infinity, and up to the exponent -1075 it is 0.  The
  rounding of the result at an exponent that is not an integer is not modelled.
\<close>

fun Math_pow2 :: "jsnum \<Rightarrow> jsnum" where
  "Math_pow2 (Fin a) =
     (if 1024 \<le> a then PInf else if a \<le> - 1075 then Fin 0 else Fin (2 powr a))"
| "Math_pow2 PInf = PInf"
| "Math_pow2 NInf = Fin 0"
| "Math_pow2 NaN = NaN"

text \<open>
  A result beyond the range of doubles is an infinity: the largest double is
  \<open>2 ^ 1024 - 2 ^ 971\<close>, and rounding to nearest gives an infinity from
  \<open>2 ^ 1024 - 2 ^ 970\<close> on.  The amplitude arithmetic of the simulators is modelled
  without it; the product in the message of \<open>validateQubitCount\<close>, whose operand
  grows with the qubit count, is modelled with it.
\<close>

fun overflow :: "jsnum \<Rightarrow> jsnum" where
  "overflow (Fin a) =
     (if 2 ^ 1024 - 2 ^ 970 \<le> a then PInf
      else if a \<le> - (2 ^ 1024 - 2 ^ 970) then NInf
      else Fin a)"
| "overflow x = x"

text \<open>
  The last number of the memory-limit message is printed by \<open>toFixed(1)\<close>, with one
  decimal, or as \<open>Infinity\<close>; the value itself is kept here.
\<close>

definition validateQubitCount :: "jsnum \<Rightarrow> error + unit" where
  "validateQubitCount n =
     (if \<not> isInteger n then
        Inl (QuantumValidationError
               [Txt ''Number of qubits must be an integer, got '', Num n]
               INVALID_QUBIT_COUNT [(''numQubits'', n)])
      else if n < MIN_QUBITS then
        Inl (QuantumValidationError
               [Txt ''Number of qubits must be at least '', Num MIN_QUBITS]
               INVALID_QUBIT_COUNT [(''numQubits'', n), (''min'', MIN_QUBITS)])
      else if MAX_QUBITS < n then
        Inl (QuantumValidationError
               [Txt ''Number of qubits ('', Num n, Txt '') exceeds maximum of '',
                Num MAX_QUBITS, Txt ''. This would require '', Num (Math_pow2 n),
                Txt '' amplitudes (~'',
                Num (overflow (Math_pow2 n * Fin 16) / Fin 1024 / Fin 1024),
                Txt ''MB memory)'']
               MEMORY_LIMIT [(''numQubits'', n), (''max'', MAX_QUBITS)])
      else Inr ())"

text \<open>Whether a failure states how many amplitudes or how much memory the count needs.\<close>

fun carries_estimate :: "error \<Rightarrow> bool" where
  "carries_estimate (QuantumValidationError msg code details) =
     (Txt '' amplitudes (~'' \<in> set msg \<and> Txt ''MB memory)'' \<in> set msg)"
| "carries_estimate _ = False"

section \<open>The flat-array simulator (lib/quantum/simulator.ts)\<close>

text \<open>
  The state is a \<open>Float64Array\<close> of interleaved real and imaginary parts.  The qubit
  count is a natural number; the noise model is stored by the constructor and never read,
  and is left out.
\<close>

record FlatSimulator =
  numQubits :: nat
  state :: "jsnum list"

text \<open>
  \<open>new Float64Array(len)\<close> throws a RangeError when \<open>len\<close> exceeds 2^53 - 1; the
  memory an engine can really allocate is smaller and is not modelled.
\<close>

definition flat_constructor :: "nat \<Rightarrow> error + FlatSimulator" where
  "flat_constructor n =
     (let stateSize = (2::nat) ^ n
      in if 2 ^ 53 - 1 < stateSize * 2 then Inl RangeError
         else (let st = replicate (stateSize * 2) (0::jsnum)
               in Inr \<lparr>numQubits = n, state = f64_set st 0 1\<rparr>))"

definition flat_getState :: "FlatSimulator \<Rightarrow> Complex list" where
  "flat_getState s =
     (let size = (2::nat) ^ numQubits s;
          resultSize = min size (1024 * 16)
      in fold (\<lambda>i result. result @
                 [\<lparr>creal = f64_get (state s) (2 * int i),
                   cimag = f64_get (state s) (2 * int i + 1)\<rparr>])
           [0..<resultSize] [])"

definition flat_getProbabilities :: "FlatSimulator \<Rightarrow> jsnum list" where
  "flat_getProbabilities s =
     (let size = (2::nat) ^ numQubits s;
          resultSize = min size (1024 * 16)
      in map (\<lambda>i. let re = f64_get (state s) (2 * int i);
                       im = f64_get (state s) (2 * int i + 1)
                   in re * re + im * im)
           [0..<resultSize])"

text \<open>
  A loop whose body may throw: the fold stops at the first failure and keeps the state
  the body left behind.
\<close>

fun try_fold :: "('a \<Rightarrow> 's \<Rightarrow> error option \<times> 's) \<Rightarrow> 'a list \<Rightarrow> 's \<Rightarrow> error option \<times> 's" where
  "try_fold f [] s = (None, s)"
| "try_fold f (x # xs) s =
     (case f x s of (None, s') \<Rightarrow> try_fold f xs s' | (Some e, s') \<Rightarrow> (Some e, s'))"

text \<open>
  \<open>apply\<close> passes \<open>qubits[k]\<close>, which is \<open>undefined\<close> when fewer indices were given.
  The shift count \<open>n - 1 - qubit\<close> is then NaN, which a shift reads as 0.
\<close>

definition qubit_arg :: "int list \<Rightarrow> nat \<Rightarrow> int option" where
  "qubit_arg qs k = (if k < length qs then Some (qs ! k) else None)"

definition shift_count :: "nat \<Rightarrow> int option \<Rightarrow> int" where
  "shift_count n q = (case q of Some q \<Rightarrow> int n - 1 - q | None \<Rightarrow> 0)"

definition flat_single_step :: "Matrix \<Rightarrow> int \<Rightarrow> nat \<Rightarrow> jsnum list \<Rightarrow> jsnum list" where
  "flat_single_step gate bitmask i st =
     (if js_and (int i) bitmask = 0 then
        (let g00_re = creal (gate ! 0 ! 0); g00_im = cimag (gate ! 0 ! 0);
             g01_re = creal (gate ! 0 ! 1); g01_im = cimag (gate ! 0 ! 1);
             g10_re = creal (gate ! 1 ! 0); g10_im = cimag (gate ! 1 ! 0);
             g11_re = creal (gate ! 1 ! 1); g11_im = cimag (gate ! 1 ! 1);
             i0 = 2 * int i;
             i1 = 2 * js_or (int i) bitmask;
             v0_re = f64_get st i0;
             v0_im = f64_get st (i0 + 1);
             v1_re = f64_get st i1;
             v1_im = f64_get st (i1 + 1);
             st = f64_set st i0
                    ((g00_re * v0_re - g00_im * v0_im) + (g01_re * v1_re - g01_im * v1_im));
             st = f64_set st (i0 + 1)
                    ((g00_re * v0_im + g00_im * v0_re) + (g01_re * v1_im + g01_im * v1_re));
             st = f64_set st i1
                    ((g10_re * v0_re - g10_im * v0_im) + (g11_re * v1_re - g11_im * v1_im));
             st = f64_set st (i1 + 1)
                    ((g10_re * v0_im + g10_im * v0_re) + (g11_re * v1_im + g11_im * v1_re))
         in st)
      else st)"

definition flat_applySingleQubitGate ::
  "Matrix \<Rightarrow> int option \<Rightarrow> FlatSimulator \<Rightarrow> FlatSimulator" where
  "flat_applySingleQubitGate gate qubit s =
     (let n = numQubits s;
          size = (2::nat) ^ n;
          bitmask = js_shl 1 (shift_count n qubit)
      in s\<lparr>state := fold (flat_single_step gate bitmask) [0..<size] (state s)\<rparr>)"

text \<open>
  One row of a gather/scatter update: the dot product of a matrix row with the gathered
  amplitudes, accumulated from 0 as the source does.
\<close>

definition flat_row :: "Matrix \<Rightarrow> jsnum list \<Rightarrow> jsnum list \<Rightarrow> nat \<Rightarrow> nat \<Rightarrow> jsnum \<times> jsnum" where
  "flat_row gate v_re v_im gateSize row =
     fold (\<lambda>col (target_re, target_im).
             let g_re = creal (gate ! row ! col); g_im = cimag (gate ! row ! col)
             in (target_re + (g_re * (v_re ! col) - g_im * (v_im ! col)),
                 target_im + (g_re * (v_im ! col) + g_im * (v_re ! col))))
       [0..<gateSize] (0, 0)"

definition flat_two_step :: "Matrix \<Rightarrow> int \<Rightarrow> int \<Rightarrow> nat \<Rightarrow> jsnum list \<Rightarrow> jsnum list" where
  "flat_two_step gate m1 m2 i st =
     (if js_and (int i) m1 = 0 \<and> js_and (int i) m2 = 0 then
        (let i00 = int i;
             i01 = js_or (int i) m2;
             i10 = js_or (int i) m1;
             i11 = js_or (js_or (int i) m1) m2;
             indices = [i00, i01, i10, i11];
             v_re = map (\<lambda>idx. f64_get st (2 * idx)) indices;
             v_im = map (\<lambda>idx. f64_get st (2 * idx + 1)) indices
         in fold (\<lambda>row st.
                    let (target_re, target_im) = flat_row gate v_re v_im 4 row;
                        target_idx = indices ! row;
                        st = f64_set st (2 * target_idx) target_re;
                        st = f64_set st (2 * target_idx + 1) target_im
                    in st)
              [0..<4] st)
      else st)"

definition flat_applyTwoQubitGate ::
  "Matrix \<Rightarrow> int option \<Rightarrow> int option \<Rightarrow> FlatSimulator \<Rightarrow> FlatSimulator" where
  "flat_applyTwoQubitGate gate q1 q2 s =
     (let n = numQubits s;
          size = (2::nat) ^ n;
          m1 = js_shl 1 (shift_count n q1);
          m2 = js_shl 1 (shift_count n q2)
      in s\<lparr>state := fold (flat_two_step gate m1 m2) [0..<size] (state s)\<rparr>)"

text \<open>
  In the general routine the size of the gathered block comes from the number of indices
  the caller gave, so a row or an entry of the matrix may be missing; reading its
  \<open>real\<close> field then throws a TypeError.
\<close>

definition mat_get :: "Matrix \<Rightarrow> nat \<Rightarrow> nat \<Rightarrow> Complex option" where
  "mat_get gate row col =
     (if row < length gate \<and> col < length (gate ! row) then Some (gate ! row ! col) else None)"

definition flat_multi_row ::
  "Matrix \<Rightarrow> jsnum list \<Rightarrow> jsnum list \<Rightarrow> nat \<Rightarrow> nat \<Rightarrow> error option \<times> jsnum \<times> jsnum" where
  "flat_multi_row gate v_re v_im gateSize row =
     try_fold (\<lambda>col (target_re, target_im).
                 case mat_get gate row col of
                   None \<Rightarrow> (Some TypeError, (target_re, target_im))
                 | Some g \<Rightarrow>
                     (None,
                      (target_re + (creal g * (v_re ! col) - cimag g * (v_im ! col)),
                       target_im + (creal g * (v_im ! col) + cimag g * (v_re ! col)))))
       [0..<gateSize] (0, 0)"

definition flat_subIndex :: "int list \<Rightarrow> nat \<Rightarrow> nat \<Rightarrow> int" where
  "flat_subIndex masks i j =
     js_or (fold (\<lambda>k idx.
                    if js_and (js_sar (int j) (int (length masks) - 1 - int k)) 1 \<noteq> 0
                    then js_or idx (masks ! k) else idx)
              [0..<length masks] (int i)) 0"

definition flat_multi_step ::
  "Matrix \<Rightarrow> int list \<Rightarrow> int \<Rightarrow> nat \<Rightarrow> jsnum list \<Rightarrow> error option \<times> jsnum list" where
  "flat_multi_step gate masks totalMask i st =
     (if js_and (int i) totalMask = 0 then
        (let gateSize = (2::nat) ^ length masks;
             subIndices = map (flat_subIndex masks i) [0..<gateSize];
             v_re = map (\<lambda>j. f64_get st (2 * (subIndices ! j))) [0..<gateSize];
             v_im = map (\<lambda>j. f64_get st (2 * (subIndices ! j) + 1)) [0..<gateSize]
         in try_fold (\<lambda>row st.
                        case flat_multi_row gate v_re v_im gateSize row of
                          (Some e, _) \<Rightarrow> (Some e, st)
                        | (None, (target_re, target_im)) \<Rightarrow>
                            (None,
                             f64_set (f64_set st (2 * (subIndices ! row)) target_re)
                               (2 * (subIndices ! row) + 1) target_im))
              [0..<gateSize] st)
      else (None, st))"

definition flat_applyMultiQubitGate ::
  "Matrix \<Rightarrow> int list \<Rightarrow> FlatSimulator \<Rightarrow> error option \<times> FlatSimulator" where
  "flat_applyMultiQubitGate gate qs s =
     (let n = numQubits s;
          size = (2::nat) ^ n;
          masks = map (\<lambda>q. js_shl 1 (int n - 1 - q)) qs;
          totalMask = fold (\<lambda>b a. js_or a b) masks 0
      in case try_fold (flat_multi_step gate masks totalMask) [0..<size] (state s) of
           (e, st) \<Rightarrow> (e, s\<lparr>state := st\<rparr>))"

text \<open>
  \<open>apply\<close> takes the gate name, the parameter array (empty when the call gives none)
  and the qubit indices, which are integers.  It returns the failure, if any, and the
  simulator as the call leaves it.
\<close>

definition gate_matrix :: "GateInfo \<Rightarrow> jsnum list \<Rightarrow> Matrix" where
  "gate_matrix gateInfo ps =
     (case matrix gateInfo of
        Parameterized f \<Rightarrow> f (if ps \<noteq> [] then ps else [Fin 0])
      | Constant m \<Rightarrow> m)"

definition flat_apply ::
  "string \<Rightarrow> jsnum list \<Rightarrow> int list \<Rightarrow> FlatSimulator \<Rightarrow> error option \<times> FlatSimulator" where
  "flat_apply gateName ps qs s =
     (case map_of GATE_LIBRARY gateName of
        None \<Rightarrow> (Some (Error [Txt ''Unknown gate: '', Txt gateName]), s)
      | Some gateInfo \<Rightarrow>
          (let m = gate_matrix gateInfo ps
           in if qubits gateInfo = 1 then
                (None, flat_applySingleQubitGate m (qubit_arg qs 0) s)
              else if qubits gateInfo = 2 then
                (None, flat_applyTwoQubitGate m (qubit_arg qs 0) (qubit_arg qs 1) s)
              else flat_applyMultiQubitGate m qs s))"

record Bloch =
  bloch_x :: jsnum
  bloch_y :: jsnum
  bloch_z :: jsnum

record BlochAcc =
  rho00 :: jsnum
  rho11 :: jsnum
  rho01_re :: jsnum
  rho01_im :: jsnum

definition flat_bloch_step :: "jsnum list \<Rightarrow> int \<Rightarrow> nat \<Rightarrow> BlochAcc \<Rightarrow> BlochAcc" where
  "flat_bloch_step st bitmask i acc =
     (let re = f64_get st (2 * int i);
          im = f64_get st (2 * int i + 1);
          prob = re * re + im * im
      in if js_and (int i) bitmask = 0 then
           (let j = js_or (int i) bitmask;
                re_j = f64_get st (2 * j);
                im_j = f64_get st (2 * j + 1)
            in acc\<lparr>rho00 := rho00 acc + prob,
                   rho01_re := rho01_re acc + (re * re_j + im * im_j),
                   rho01_im := rho01_im acc + (im * re_j - re * im_j)\<rparr>)
         else acc\<lparr>rho11 := rho11 acc + prob\<rparr>)"

definition flat_getBlochCoordinates :: "int \<Rightarrow> FlatSimulator \<Rightarrow> Bloch" where
  "flat_getBlochCoordinates qubit s =
     (let n = numQubits s;
          size = (2::nat) ^ n;
          bitmask = js_shl 1 (int n - 1 - qubit);
          acc = fold (flat_bloch_step (state s) bitmask) [0..<size]
                  \<lparr>rho00 = 0, rho11 = 0, rho01_re = 0, rho01_im = 0\<rparr>
      in \<lparr>bloch_x = Fin 2 * rho01_re acc,
          bloch_y = Fin 2 * rho01_im acc,
          bloch_z = rho00 acc - rho11 acc\<rparr>)"













section \<open>The object-per-amplitude simulator\<close>

text \<open>
  The second simulator keeps the state as an array of \<open>Complex\<close> objects, together
  with the history of states and the log of operations.  Its array always has 2^n
  entries; reads at the loop index rely on that, reads at a computed index do not.
\<close>

record GateOperation =
  op_gate :: string
  op_qubits :: "int list"
  op_params :: "jsnum list option"

record ObjSimulator =
  o_numQubits :: nat
  o_state :: "Complex list"
  o_history :: "Complex list list"
  o_operations :: "GateOperation list"

text \<open>\<open>Array(len)\<close> throws a RangeError when \<open>len\<close> exceeds 2^32 - 1.\<close>

definition obj_constructor :: "nat \<Rightarrow> error + ObjSimulator" where
  "obj_constructor n =
     (let stateSize = (2::nat) ^ n
      in if 2 ^ 32 - 1 < stateSize then Inl RangeError
         else (let st = (replicate stateSize ZERO)[0 := ONE]
               in Inr \<lparr>o_numQubits = n, o_state = st, o_history = [st], o_operations = []\<rparr>))"

text \<open>
  \<open>initialize\<close> is modelled on the index: a label is first turned into one by
  \<open>parseInt\<close>, which gives NaN when the label has no binary digit.  An index in range
  that is not an integer names no element of the array.
\<close>

definition obj_initialize :: "jsnum \<Rightarrow> ObjSimulator \<Rightarrow> error option \<times> ObjSimulator" where
  "obj_initialize index s =
     (let stateSize = (2::nat) ^ o_numQubits s;
          st = replicate stateSize ZERO;
          st = (if Fin 0 \<le> index \<and> index < Fin (real stateSize) then
                  (case index of Fin a \<Rightarrow> if isInteger index then st[nat \<lfloor>a\<rfloor> := ONE] else st
                   | _ \<Rightarrow> st)
                else st)
      in (None, s\<lparr>o_state := st, o_history := [st], o_operations := []\<rparr>))"

text \<open>The squared norm of a state vector, summed from 0 in index order.\<close>

definition stateNorm :: "Complex list \<Rightarrow> jsnum" where
  "stateNorm stateVector = fold (\<lambda>amp sum. sum + magnitudeSquared amp) stateVector 0"

definition obj_setState :: "Complex list \<Rightarrow> ObjSimulator \<Rightarrow> error option \<times> ObjSimulator" where
  "obj_setState stateVector s =
     (let expectedSize = (2::nat) ^ o_numQubits s
      in if length stateVector \<noteq> expectedSize then
           (Some (Error [Txt ''State vector must have '', Num (Fin (real expectedSize)),
                    Txt '' elements'']), s)
         else
           (let norm = stateNorm stateVector
            in if Fin (1 / 10 ^ 6) < Math_abs (norm - 1) then
                 (Some (Error [Txt ''State vector must be normalized (norm = '', Num norm,
                          Txt '')'']), s)
               else (None, s\<lparr>o_state := stateVector,
                             o_history := o_history s @ [stateVector]\<rparr>)))"

definition obj_single_update :: "Matrix \<Rightarrow> int option \<Rightarrow> ObjSimulator \<Rightarrow> ObjSimulator" where
  "obj_single_update gate qubit s =
     (let fullOperator = (if qubit = Some 0 then gate else identity 2);
          fullOperator =
            fold (\<lambda>i fullOperator.
                    tensorProduct fullOperator (if Some (int i) = qubit then gate else identity 2))
              [1..<o_numQubits s] fullOperator;
          st = matrixVectorMultiply fullOperator (o_state s)
      in s\<lparr>o_state := st, o_history := o_history s @ [st]\<rparr>)"

text \<open>
  The range check compares the index with 0 and with the qubit count; on a missing
  index both comparisons are false.
\<close>

definition obj_applySingleQubitGate ::
  "Matrix \<Rightarrow> int option \<Rightarrow> ObjSimulator \<Rightarrow> error option \<times> ObjSimulator" where
  "obj_applySingleQubitGate gate qubit s =
     (case qubit of
        Some q \<Rightarrow>
          if q < 0 \<or> int (o_numQubits s) \<le> q then
            (Some (Error [Txt ''Invalid qubit index: '', Num (Fin (real_of_int q))]), s)
          else (None, obj_single_update gate qubit s)
      | None \<Rightarrow> (None, obj_single_update gate qubit s))"

text \<open>
  A read of an array of objects at a computed index; outside the array it yields
  \<open>undefined\<close>, and the arithmetic on it throws a TypeError.
\<close>

definition arr_get :: "'a list \<Rightarrow> int \<Rightarrow> 'a option" where
  "arr_get a i = (if 0 \<le> i \<and> i < int (length a) then Some (a ! nat i) else None)"

definition obj_two_inner ::
  "Matrix \<Rightarrow> nat \<Rightarrow> int option \<Rightarrow> int option \<Rightarrow> bool \<Rightarrow> Complex \<Rightarrow> nat \<Rightarrow> nat \<Rightarrow> nat \<Rightarrow>
   Complex list \<Rightarrow> error option \<times> Complex list" where
  "obj_two_inner gate n qubit1 qubit2 needsSwap amp twoQubitIndex i j newState =
     (let newBit1 = (if needsSwap then js_and (int j) 1 else js_and (js_sar (int j) 1) 1);
          newBit2 = (if needsSwap then js_and (js_sar (int j) 1) 1 else js_and (int j) 1);
          newIndex = int i;
          newIndex = js_and newIndex (js_not (js_shl 1 (shift_count n qubit1)));
          newIndex = js_or newIndex (js_shl newBit1 (shift_count n qubit1));
          newIndex = js_and newIndex (js_not (js_shl 1 (shift_count n qubit2)));
          newIndex = js_or newIndex (js_shl newBit2 (shift_count n qubit2))
      in case (mat_get gate j twoQubitIndex, arr_get newState newIndex) of
           (Some gateElement, Some old) \<Rightarrow>
             (None, newState[nat newIndex := add old (multiply gateElement amp)])
         | _ \<Rightarrow> (Some TypeError, newState))"

definition obj_two_outer ::
  "Matrix \<Rightarrow> nat \<Rightarrow> int option \<Rightarrow> int option \<Rightarrow> Complex list \<Rightarrow> nat \<Rightarrow>
   Complex list \<Rightarrow> error option \<times> Complex list" where
  "obj_two_outer gate n qubit1 qubit2 st i newState =
     (let needsSwap = (case (qubit1, qubit2) of (Some a, Some b) \<Rightarrow> b < a | _ \<Rightarrow> False);
          bit1 = js_and (js_sar (int i) (shift_count n qubit1)) 1;
          bit2 = js_and (js_sar (int i) (shift_count n qubit2)) 1;
          twoQubitIndex = nat (if needsSwap then bit2 * 2 + bit1 else bit1 * 2 + bit2)
      in try_fold (obj_two_inner gate n qubit1 qubit2 needsSwap (st ! i) twoQubitIndex i)
           [0..<4] newState)"

definition obj_applyTwoQubitGate ::
  "Matrix \<Rightarrow> int option \<Rightarrow> int option \<Rightarrow> ObjSimulator \<Rightarrow> error option \<times> ObjSimulator" where
  "obj_applyTwoQubitGate gate qubit1 qubit2 s =
     (let n = o_numQubits s;
          bad = (\<lambda>q. case q of Some q \<Rightarrow> q < 0 \<or> int n \<le> q | None \<Rightarrow> False)
      in if bad qubit1 \<or> bad qubit2 then
           (Some (Error [Txt ''Invalid qubit indices: '',
                    Nums (map (\<lambda>q. case q of Some q \<Rightarrow> Fin (real_of_int q) | None \<Rightarrow> NaN)
                            [qubit1, qubit2])]), s)
         else if qubit1 = qubit2 then
           (Some (Error [Txt ''Two-qubit gate must operate on different qubits'']), s)
         else
           (let stateSize = (2::nat) ^ n;
                newState = replicate stateSize ZERO
            in case try_fold (obj_two_outer gate n qubit1 qubit2 (o_state s)) [0..<stateSize]
                      newState of
                 (Some e, _) \<Rightarrow> (Some e, s)
               | (None, newState) \<Rightarrow>
                   (None, s\<lparr>o_state := newState, o_history := o_history s @ [newState]\<rparr>)))"

definition obj_multi_inner ::
  "Matrix \<Rightarrow> nat \<Rightarrow> int list \<Rightarrow> Complex \<Rightarrow> int \<Rightarrow> nat \<Rightarrow> nat \<Rightarrow>
   Complex list \<Rightarrow> error option \<times> Complex list" where
  "obj_multi_inner gate n qs amp gateIndex i j newState =
     (let newIndex =
            fold (\<lambda>q newIndex.
                    let newBit = js_and (js_sar (int j) (int (length qs) - 1 - int q)) 1;
                        newIndex = js_and newIndex (js_not (js_shl 1 (int n - 1 - qs ! q)));
                        newIndex = js_or newIndex (js_shl newBit (int n - 1 - qs ! q))
                    in newIndex)
              [0..<length qs] (int i)
      in case (if 0 \<le> gateIndex then mat_get gate j (nat gateIndex) else None,
               arr_get newState newIndex) of
           (Some gateElement, Some old) \<Rightarrow>
             (None, newState[nat newIndex := add old (multiply gateElement amp)])
         | _ \<Rightarrow> (Some TypeError, newState))"

definition obj_multi_outer ::
  "Matrix \<Rightarrow> nat \<Rightarrow> int list \<Rightarrow> Complex list \<Rightarrow> nat \<Rightarrow>
   Complex list \<Rightarrow> error option \<times> Complex list" where
  "obj_multi_outer gate n qs st i newState =
     (let gateSize = (2::nat) ^ length qs;
          gateIndex =
            fold (\<lambda>q gateIndex.
                    let b = js_and (js_sar (int i) (int n - 1 - qs ! q)) 1
                    in js_or gateIndex (js_shl b (int (length qs) - 1 - int q)))
              [0..<length qs] 0
      in try_fold (obj_multi_inner gate n qs (st ! i) gateIndex i) [0..<gateSize] newState)"

definition obj_applyMultiQubitGate ::
  "Matrix \<Rightarrow> int list \<Rightarrow> ObjSimulator \<Rightarrow> error option \<times> ObjSimulator" where
  "obj_applyMultiQubitGate gate qs s =
     (let n = o_numQubits s;
          stateSize = (2::nat) ^ n;
          newState = replicate stateSize ZERO
      in case try_fold (obj_multi_outer gate n qs (o_state s)) [0..<stateSize] newState of
           (Some e, _) \<Rightarrow> (Some e, s)
         | (None, newState) \<Rightarrow>
             (None, s\<lparr>o_state := newState, o_history := o_history s @ [newState]\<rparr>))"

definition has_NaN :: "Matrix \<Rightarrow> bool" where
  "has_NaN m = list_ex (\<lambda>row. list_ex (\<lambda>c. isNaN (creal c) \<or> isNaN (cimag c)) row) m"

definition obj_apply ::
  "string \<Rightarrow> jsnum list \<Rightarrow> int list \<Rightarrow> ObjSimulator \<Rightarrow> error option \<times> ObjSimulator" where
  "obj_apply gateName ps qs s =
     (case map_of GATE_LIBRARY gateName of
        None \<Rightarrow> (Some (Error [Txt ''Unknown gate: '', Txt gateName]), s)
      | Some gateInfo \<Rightarrow>
          (let m = gate_matrix gateInfo ps
           in if has_NaN m then
                (Some (Error [Txt ''Gate '', Txt gateName,
                         Txt '' produced NaN matrix elements with params '', Nums ps]), s)
              else
                (let s = s\<lparr>o_operations := o_operations s @
                             [\<lparr>op_gate = gateName, op_qubits = qs, op_params = Some ps\<rparr>]\<rparr>
                 in if qubits gateInfo = 1 then obj_applySingleQubitGate m (qubit_arg qs 0) s
                    else if qubits gateInfo = 2 then
                      obj_applyTwoQubitGate m (qubit_arg qs 0) (qubit_arg qs 1) s
                    else obj_applyMultiQubitGate m qs s)))"

record MeasurementResult =
  outcome :: nat
  probability :: jsnum
  collapsedState :: "Complex list"

text \<open>\<open>measure\<close> draws one random number, the argument \<open>random\<close>.\<close>

definition measured_bit :: "nat \<Rightarrow> int \<Rightarrow> nat \<Rightarrow> int" where
  "measured_bit n qubit i = js_and (js_sar (int i) (int n - 1 - qubit)) 1"

text \<open>The first loop of \<open>measure\<close>: the two probabilities, grouped by the target bit.\<close>

definition bit_probabilities :: "nat \<Rightarrow> int \<Rightarrow> Complex list \<Rightarrow> jsnum \<times> jsnum" where
  "bit_probabilities n qubit st =
     fold (\<lambda>i (prob0, prob1).
             let prob = magnitudeSquared (st ! i)
             in if measured_bit n qubit i = 0 then (prob0 + prob, prob1)
                else (prob0, prob1 + prob))
       [0..<2 ^ n] (0, 0)"

text \<open>The second loop: the collapsed state.\<close>

definition collapsed :: "nat \<Rightarrow> int \<Rightarrow> Complex list \<Rightarrow> nat \<Rightarrow> jsnum \<Rightarrow> Complex list" where
  "collapsed n qubit st chosen normFactor =
     fold (\<lambda>i collapsedState.
             collapsedState @
               [if measured_bit n qubit i = int chosen
                then scale (st ! i) normFactor else ZERO])
       [0..<2 ^ n] []"

definition obj_measure ::
  "int \<Rightarrow> real \<Rightarrow> ObjSimulator \<Rightarrow> (error + MeasurementResult) \<times> ObjSimulator" where
  "obj_measure qubit random s =
     (if qubit < 0 \<or> int (o_numQubits s) \<le> qubit then
        (Inl (Error [Txt ''Invalid qubit index: '', Num (Fin (real_of_int qubit))]), s)
      else
        (let n = o_numQubits s;
             (prob0, prob1) = bit_probabilities n qubit (o_state s);
             outcome = (if Fin random < prob0 then 0 else 1);
             probability = (if outcome = 0 then prob0 else prob1);
             normFactor = 1 / Math_sqrt probability;
             collapsedState = collapsed n qubit (o_state s) outcome normFactor
         in (Inr \<lparr>outcome = outcome, probability = probability,
                  collapsedState = collapsedState\<rparr>,
             s\<lparr>o_state := collapsedState,
               o_history := o_history s @ [collapsedState],
               o_operations := o_operations s @
                 [\<lparr>op_gate = ''MEASURE'', op_qubits = [qubit], op_params = None\<rparr>]\<rparr>)))"

text \<open>
  The words of the specification for a measurement.  Qubit \<open>q\<close> of an n-qubit index
  is its bit n - 1 - q; the probability of a value of the qubit is the sum of the squared
  magnitudes over the indices with that value; the collapse keeps the amplitudes of the
  indices with the outcome, rescaled by 1 / sqrt p, and sets the others to zero.
\<close>

definition qubit_value :: "nat \<Rightarrow> int \<Rightarrow> nat \<Rightarrow> bool" where
  "qubit_value n q i = bit i (nat (int n - 1 - q))"

definition group_probability :: "nat \<Rightarrow> int \<Rightarrow> Complex list \<Rightarrow> bool \<Rightarrow> jsnum" where
  "group_probability n q st b =
     (\<Sum>i\<leftarrow>filter (\<lambda>i. qubit_value n q i = b) [0..<2 ^ n]. magnitudeSquared (st ! i))"

definition collapse :: "nat \<Rightarrow> int \<Rightarrow> Complex list \<Rightarrow> bool \<Rightarrow> jsnum \<Rightarrow> Complex list" where
  "collapse n q st b p =
     map (\<lambda>i. if qubit_value n q i = b then scale (st ! i) (1 / Math_sqrt p) else ZERO)
       [0..<2 ^ n]"









text \<open>The amplitudes a buffer of interleaved parts holds, in index order.\<close>

definition amplitudes :: "jsnum list \<Rightarrow> Complex list" where
  "amplitudes buf =
     map (\<lambda>i. \<lparr>creal = buf ! (2 * i), cimag = buf ! (2 * i + 1)\<rparr>) [0..<length buf div 2]"

section \<open>Results\<close>

subsection \<open>Evaluation rules\<close>

lemmas jsnum_arith = zero_jsnum_def one_jsnum_def minus_jsnum_def

lemmas complex_ops = add_def multiply_def conjugate_def complex_def ZERO_def ONE_def
  fromPolar_def scale_def magnitudeSquared_def

lemmas matrix_eval = identity_def createMatrix_def mat_set_def matrixMultiply_def
  conjugateTranspose_def upt_rec numeral_eq_Suc

subsection \<open>Constant gates are unitary\<close>

lemma identity_fold:
  "k \<le> n \<Longrightarrow>
   fold (\<lambda>i result. mat_set result i i (complex 1 0)) [0..<k] (createMatrix n n ZERO) =
   map (\<lambda>i. map (\<lambda>j. if i = j \<and> i < k then complex 1 0 else ZERO) [0..<n]) [0..<n]"
proof (induction k)
  case 0
  show ?case
    by (simp add: createMatrix_def map_replicate_const)
next
  case (Suc k)
  then have k: "k < n" by simp
  have "fold (\<lambda>i result. mat_set result i i (complex 1 0)) [0..<Suc k] (createMatrix n n ZERO)
      = mat_set (map (\<lambda>i. map (\<lambda>j. if i = j \<and> i < k then complex 1 0 else ZERO) [0..<n]) [0..<n])
          k k (complex 1 0)"
    using Suc by simp
  also have "\<dots> = map (\<lambda>i. map (\<lambda>j. if i = j \<and> i < Suc k then complex 1 0 else ZERO) [0..<n]) [0..<n]"
    using k by (auto simp: mat_set_def intro!: nth_equalityI simp: nth_list_update less_Suc_eq)
  finally show ?case .
qed

lemma identity_map:
  "identity n = map (\<lambda>i. map (\<lambda>j. if i = j then complex 1 0 else ZERO) [0..<n]) [0..<n]"
  using identity_fold [of n n] by (simp add: identity_def cong: map_cong)

lemma identity_nth:
  "i < n \<Longrightarrow> j < n \<Longrightarrow> identity n ! i ! j = (if i = j then complex 1 0 else ZERO)"
  by (simp add: identity_map)

lemma within_identity_exact: "0 \<le> e \<Longrightarrow> within_identity n e (identity n)"
  unfolding within_identity_def list_all_iff
  by (auto simp: identity_map complex_def ZERO_def jsnum_arith)

lemma within_identity_entry:
  assumes "within_identity n e p" and "i < n" and "j < n"
  obtains a b where "creal (p ! i ! j) = Fin a" and "cimag (p ! i ! j) = Fin b"
    and "\<bar>a - (if i = j then 1 else 0)\<bar> \<le> e" and "\<bar>b\<bar> \<le> e"
proof -
  from assms have c: "case (creal (p ! i ! j), cimag (p ! i ! j)) of
      (Fin a, Fin b) \<Rightarrow> \<bar>a - (if i = j then 1 else 0)\<bar> \<le> e \<and> \<bar>b\<bar> \<le> e
    | _ \<Rightarrow> False"
    unfolding within_identity_def list_all_iff by simp
  show thesis
  proof (cases "creal (p ! i ! j)")
    case (Fin a)
    show thesis
    proof (cases "cimag (p ! i ! j)")
      case (Fin b)
      with c \<open>creal (p ! i ! j) = Fin a\<close> show thesis
        by (intro that [of a b]) simp_all
    qed (use c Fin in simp_all)
  qed (use c in simp_all)
qed

lemma within_identity_isUnitary:
  assumes "within_identity (length m) (e / 2) (matrixMultiply (conjugateTranspose m) m)"
  shows "isUnitary m (Fin e)"
  unfolding isUnitary_def Let_def list_all_iff
proof (intro ballI)
  fix i j
  assume "i \<in> set [0..<length m]" "j \<in> set [0..<length m]"
  then have ij: "i < length m" "j < length m" by simp_all
  let ?p = "matrixMultiply (conjugateTranspose m) m"
  from within_identity_entry [OF assms ij]
  obtain a b where ab: "creal (?p ! i ! j) = Fin a" "cimag (?p ! i ! j) = Fin b"
    and bd: "\<bar>a - (if i = j then 1 else 0)\<bar> \<le> e / 2" "\<bar>b\<bar> \<le> e / 2"
    by blast
  have s: "\<bar>a - (if i = j then 1 else 0)\<bar> + \<bar>b\<bar> \<le> e"
    using bd by linarith
  have id: "creal (identity (length m) ! i ! j) = Fin (if i = j then 1 else 0)"
    "cimag (identity (length m) ! i ! j) = Fin 0"
    using ij by (simp_all add: identity_nth complex_def ZERO_def jsnum_arith)
  show "\<not> Fin e < Math_abs (creal (?p ! i ! j) - creal (identity (length m) ! i ! j))
            + Math_abs (cimag (?p ! i ! j) - cimag (identity (length m) ! i ! j))"
    unfolding ab id using s by (simp add: jsnum_arith)
qed

lemma within_identity_mono:
  assumes "within_identity n d p" and "d \<le> e"
  shows "within_identity n e p"
  unfolding within_identity_def list_all_iff
proof (intro conjI ballI)
  show "length p = n" "\<And>row. row \<in> set p \<Longrightarrow> length row = n"
    using assms(1) by (simp_all add: within_identity_def list_all_iff)
  fix i j
  assume "i \<in> set [0..<n]" "j \<in> set [0..<n]"
  then have ij: "i < n" "j < n" by simp_all
  from within_identity_entry [OF assms(1) ij]
  obtain a b where ab: "creal (p ! i ! j) = Fin a" "cimag (p ! i ! j) = Fin b"
    and bd: "\<bar>a - (if i = j then 1 else 0)\<bar> \<le> d" "\<bar>b\<bar> \<le> d"
    by blast
  show "case (creal (p ! i ! j), cimag (p ! i ! j)) of
      (Fin a, Fin b) \<Rightarrow> \<bar>a - (if i = j then 1 else 0)\<bar> \<le> e \<and> \<bar>b\<bar> \<le> e
    | _ \<Rightarrow> False"
    using bd assms(2) by (simp add: ab)
qed

text \<open>
  Twice the square of \<open>SQRT2_INV\<close> is below one, so H and CH are accepted at the
  tolerance 1e-9 and are not accepted at the tolerance 0.
\<close>

lemma near_unitary_H:
  "within_identity 2 (1 / 10 ^ 15) (matrixMultiply (conjugateTranspose H) H)"
  by (simp add: within_identity_def matrix_eval H_def SQRT2_INV_def complex_ops jsnum_arith)

lemma near_unitary_CH:
  "within_identity 4 (1 / 10 ^ 15) (matrixMultiply (conjugateTranspose CH) CH)"
  by (simp add: within_identity_def matrix_eval CH_def H_def SQRT2_INV_def complex_ops jsnum_arith)

lemma H_not_exactly_unitary: "\<not> isUnitary H (Fin 0)"
  by (simp add: isUnitary_def matrix_eval H_def SQRT2_INV_def complex_ops jsnum_arith)

lemma CH_not_exactly_unitary: "\<not> isUnitary CH (Fin 0)"
  by (simp add: isUnitary_def matrix_eval CH_def H_def SQRT2_INV_def complex_ops jsnum_arith)

lemma unitary_I: "matrixMultiply (conjugateTranspose I) I = identity 2"
  by (simp add: matrix_eval I_def complex_ops jsnum_arith)

lemma unitary_X: "matrixMultiply (conjugateTranspose X) X = identity 2"
  by (simp add: matrix_eval X_def complex_ops jsnum_arith)

lemma unitary_Y: "matrixMultiply (conjugateTranspose Y) Y = identity 2"
  by (simp add: matrix_eval Y_def complex_ops jsnum_arith)

lemma unitary_Z: "matrixMultiply (conjugateTranspose Z) Z = identity 2"
  by (simp add: matrix_eval Z_def complex_ops jsnum_arith)

lemma unitary_S: "matrixMultiply (conjugateTranspose S) S = identity 2"
  by (simp add: matrix_eval S_def complex_ops jsnum_arith)

lemma unitary_SDag: "matrixMultiply (conjugateTranspose SDag) SDag = identity 2"
  by (simp add: matrix_eval SDag_def complex_ops jsnum_arith)

lemma unitary_T: "matrixMultiply (conjugateTranspose T) T = identity 2"
  by (simp add: matrix_eval T_def Math_PI_def complex_ops jsnum_arith)

lemma unitary_TDag: "matrixMultiply (conjugateTranspose TDag) TDag = identity 2"
  by (simp add: matrix_eval TDag_def Math_PI_def complex_ops jsnum_arith)

lemma unitary_SX: "matrixMultiply (conjugateTranspose SX) SX = identity 2"
  by (simp add: matrix_eval SX_def complex_ops jsnum_arith)

lemma unitary_SXDag: "matrixMultiply (conjugateTranspose SXDag) SXDag = identity 2"
  by (simp add: matrix_eval SXDag_def complex_ops jsnum_arith)

lemma unitary_CNOT: "matrixMultiply (conjugateTranspose CNOT) CNOT = identity 4"
  by (simp add: matrix_eval CNOT_def complex_ops jsnum_arith)

lemma unitary_CZ: "matrixMultiply (conjugateTranspose CZ) CZ = identity 4"
  by (simp add: matrix_eval CZ_def complex_ops jsnum_arith)

lemma unitary_SWAP: "matrixMultiply (conjugateTranspose SWAP) SWAP = identity 4"
  by (simp add: matrix_eval SWAP_def complex_ops jsnum_arith)

lemma unitary_iSWAP: "matrixMultiply (conjugateTranspose iSWAP) iSWAP = identity 4"
  by (simp add: matrix_eval iSWAP_def complex_ops jsnum_arith)

lemma unitary_Toffoli: "matrixMultiply (conjugateTranspose Toffoli) Toffoli = identity 8"
  by (simp add: matrix_eval Toffoli_def complex_ops jsnum_arith)

lemma unitary_Fredkin: "matrixMultiply (conjugateTranspose Fredkin) Fredkin = identity 8"
  by (simp add: matrix_eval Fredkin_def complex_ops jsnum_arith)

lemma unitary_CCZ: "matrixMultiply (conjugateTranspose CCZ) CCZ = identity 8"
  by (simp add: matrix_eval CCZ_def complex_ops jsnum_arith)

lemma unitary_RCCX: "matrixMultiply (conjugateTranspose RCCX) RCCX = identity 8"
  by (simp add: matrix_eval RCCX_def complex_ops jsnum_arith)

lemma length_gates:
  "length I = 2" "length X = 2" "length Y = 2" "length Z = 2" "length H = 2" "length S = 2"
  "length SDag = 2" "length T = 2" "length TDag = 2" "length SX = 2" "length SXDag = 2"
  "length CNOT = 4" "length CZ = 4" "length CH = 4" "length SWAP = 4" "length iSWAP = 4"
  "length Toffoli = 8" "length Fredkin = 8" "length CCZ = 8" "length RCCX = 8"
  by (simp_all add: I_def X_def Y_def Z_def H_def S_def SDag_def T_def TDag_def SX_def SXDag_def
      CNOT_def CZ_def CH_def SWAP_def iSWAP_def Toffoli_def Fredkin_def CCZ_def RCCX_def
      identity_map mat_set_def)

lemma constant_gates_eq:
  "constant_gates =
     [(''I'', I),
      (''X'', X),
      (''Y'', Y),
      (''Z'', Z),
      (''H'', H),
      (''S'', S),
      (''SDag'', SDag),
      (''T'', T),
      (''TDag'', TDag),
      (''SX'', SX),
      (''SXDag'', SXDag),
      (''CNOT'', CNOT),
      (''CZ'', CZ),
      (''CH'', CH),
      (''SWAP'', SWAP),
      (''iSWAP'', iSWAP),
      (''Toffoli'', Toffoli),
      (''Fredkin'', Fredkin),
      (''CCZ'', CCZ),
      (''RCCX'', RCCX)]"
  by (simp add: constant_gates_def GATE_LIBRARY_def List.map_filter_simps constant_gate_def
      parameterized_gate_def)

lemma near_unitary_accepted:
  assumes "within_identity (length g) (1 / 10 ^ 15) (matrixMultiply (conjugateTranspose g) g)"
  shows "within_identity (length g) (1 / 10 ^ 9) (matrixMultiply (conjugateTranspose g) g)
    \<and> isUnitary g (Fin (1 / 10 ^ 9))"
proof
  show "within_identity (length g) (1 / 10 ^ 9) (matrixMultiply (conjugateTranspose g) g)"
    by (rule within_identity_mono [OF assms]) simp
  have "within_identity (length g) (1 / 10 ^ 9 / 2) (matrixMultiply (conjugateTranspose g) g)"
    by (rule within_identity_mono [OF assms]) simp
  then show "isUnitary g (Fin (1 / 10 ^ 9))"
    by (rule within_identity_isUnitary)
qed

lemma unitary_accepted:
  assumes "matrixMultiply (conjugateTranspose g) g = identity (length g)"
  shows "within_identity (length g) (1 / 10 ^ 9) (matrixMultiply (conjugateTranspose g) g)
    \<and> isUnitary g (Fin (1 / 10 ^ 9))"
  by (rule near_unitary_accepted) (simp add: assms within_identity_exact)

text \<open>
  C3.  The table has twenty constant gates.  For each of them, with the constants the
  code holds, the product of the conjugate transpose with the matrix has the size of the
  gate, and each of its entries is finite and within 1e-9 of the entry of the identity
  matrix, in the real and in the imaginary part; \<open>isUnitary\<close> accepts the gate at that
  tolerance.  The tolerance is needed for H and CH, whose products are not the identity
  matrix.
\<close>

theorem constant_gates_unitary:
  "map fst constant_gates =
     [''I'', ''X'', ''Y'', ''Z'', ''H'', ''S'', ''SDag'', ''T'', ''TDag'', ''SX'', ''SXDag'', ''CNOT'', ''CZ'', ''CH'', ''SWAP'', ''iSWAP'', ''Toffoli'', ''Fredkin'', ''CCZ'', ''RCCX'']
   \<and> list_all (\<lambda>(nm, g).
         within_identity (length g) (1 / 10 ^ 9) (matrixMultiply (conjugateTranspose g) g)
         \<and> isUnitary g (Fin (1 / 10 ^ 9)))
       constant_gates"
proof -
  have e: "within_identity (length g) (1 / 10 ^ 9) (matrixMultiply (conjugateTranspose g) g)
      \<and> isUnitary g (Fin (1 / 10 ^ 9))"
    if "matrixMultiply (conjugateTranspose g) g = identity n" and "length g = n" for g n
    using that by (intro unitary_accepted) simp
  note ok =
    e [OF unitary_I length_gates(1)] e [OF unitary_X length_gates(2)]
    e [OF unitary_Y length_gates(3)] e [OF unitary_Z length_gates(4)]
    near_unitary_accepted [of H, unfolded length_gates, OF near_unitary_H]
    e [OF unitary_S length_gates(6)] e [OF unitary_SDag length_gates(7)]
    e [OF unitary_T length_gates(8)] e [OF unitary_TDag length_gates(9)]
    e [OF unitary_SX length_gates(10)] e [OF unitary_SXDag length_gates(11)]
    e [OF unitary_CNOT length_gates(12)] e [OF unitary_CZ length_gates(13)]
    near_unitary_accepted [of CH, unfolded length_gates, OF near_unitary_CH]
    e [OF unitary_SWAP length_gates(15)] e [OF unitary_iSWAP length_gates(16)]
    e [OF unitary_Toffoli length_gates(17)] e [OF unitary_Fredkin length_gates(18)]
    e [OF unitary_CCZ length_gates(19)] e [OF unitary_RCCX length_gates(20)]
  show ?thesis
    unfolding constant_gates_eq
    by (simp only: list.pred_inject prod.case list.map fst_conv simp_thms length_gates
        ok [unfolded length_gates])
qed


lemma f64_get_nat: "f64_get a (int k) = (if k < length a then a ! k else NaN)"
  by (simp add: f64_get_def)

lemma f64_get_even: "f64_get a (2 * int k) = (if 2 * k < length a then a ! (2 * k) else NaN)"
  using f64_get_nat [of a "2 * k"] by simp

lemma f64_get_odd:
  "f64_get a (2 * int k + 1) = (if 2 * k + 1 < length a then a ! (2 * k + 1) else NaN)"
  using f64_get_nat [of a "2 * k + 1"] by (simp add: add.commute)

lemma fold_push_map: "fold (\<lambda>i result. result @ [f i]) xs acc = acc @ map f xs"
  by (induction xs arbitrary: acc) simp_all

lemma flat_getState_map:
  "flat_getState s =
     map (\<lambda>i. \<lparr>creal = f64_get (state s) (2 * int i),
               cimag = f64_get (state s) (2 * int i + 1)\<rparr>)
       [0..<min (2 ^ numQubits s) 16384]"
  by (simp add: flat_getState_def fold_push_map)

text \<open>
  C10.  On a simulator whose buffer has the 2 * 2^n entries the constructor gives it,
  \<open>getState\<close> returns exactly min(2^n, 16384) amplitudes, and they are the first 16384
  amplitudes of the state vector: all of them when n is at most 14, a silent truncation
  when n is 15 or more.
\<close>

theorem flat_getState_truncates:
  assumes "length (state s) = 2 * 2 ^ numQubits s"
  shows "length (flat_getState s) = min (2 ^ numQubits s) 16384
       \<and> flat_getState s = take 16384 (amplitudes (state s))
       \<and> (numQubits s \<le> 14 \<longrightarrow> flat_getState s = amplitudes (state s))
       \<and> (15 \<le> numQubits s \<longrightarrow> length (flat_getState s) = 16384
            \<and> length (flat_getState s) < length (amplitudes (state s)))"
proof -
  let ?n = "numQubits s"
  let ?m = "min ((2::nat) ^ ?n) 16384"
  have len: "length (flat_getState s) = ?m"
    by (simp add: flat_getState_map)
  have lenA: "length (amplitudes (state s)) = 2 ^ ?n"
    by (simp add: amplitudes_def assms)
  have eq: "flat_getState s = take 16384 (amplitudes (state s))"
  proof (rule nth_equalityI)
    show "length (flat_getState s) = length (take 16384 (amplitudes (state s)))"
      using len lenA by (simp add: min.commute)
  next
    fix i assume "i < length (flat_getState s)"
    then have i: "i < 2 ^ ?n" "i < 16384"
      using len by simp_all
    then have "2 * i + 1 < length (state s)"
      using assms by simp
    then show "flat_getState s ! i = take 16384 (amplitudes (state s)) ! i"
      using i assms by (simp add: flat_getState_map amplitudes_def f64_get_even f64_get_odd)
  qed
  have small: "take 16384 (amplitudes (state s)) = amplitudes (state s)" if "?n \<le> 14"
  proof -
    have "(2::nat) ^ ?n \<le> 2 ^ 14"
      using that by (rule power_increasing) simp
    then show ?thesis
      using lenA by simp
  qed
  have big: "(16384::nat) < 2 ^ ?n" if "15 \<le> ?n"
  proof -
    have "(2::nat) ^ 15 \<le> 2 ^ ?n"
      using that by (rule power_increasing) simp
    then show ?thesis by simp
  qed
  show ?thesis
    using len eq small big lenA by (auto simp: min_def)
qed

theorem flat_getState_truncates_witness:
  "length (state \<lparr>numQubits = 1, state = [1, 0, 0, 0]\<rparr>)
     = 2 * 2 ^ numQubits \<lparr>numQubits = 1, state = [1, 0, 0, 0]\<rparr>
   \<and> flat_constructor 1 = Inr \<lparr>numQubits = 1, state = [1, 0, 0, 0]\<rparr>
   \<and> flat_getState \<lparr>numQubits = 1, state = [1, 0, 0, 0]\<rparr> = [ONE, ZERO]
   \<and> length (flat_getState \<lparr>numQubits = 1, state = [1, 0, 0, 0]\<rparr>) = 2"
proof -
  let ?s = "\<lparr>numQubits = 1, state = [1, 0, 0, 0]\<rparr>"
  have h: "length (state ?s) = 2 * 2 ^ numQubits ?s"
    by simp
  have r: "replicate 4 (0::jsnum) = [0, 0, 0, 0]"
    by (simp add: numeral_eq_Suc)
  have c: "flat_constructor 1 = Inr ?s"
    by (simp add: flat_constructor_def f64_set_def r)
  have a: "amplitudes (state ?s) = [ONE, ZERO]"
    by (simp add: amplitudes_def ONE_def ZERO_def upt_rec)
  have n: "numQubits ?s \<le> 14"
    by simp
  from flat_getState_truncates [OF h] n a h c show ?thesis
    by simp
qed


subsection \<open>Qubit-count validation and construction\<close>

lemma pow2_estimate:
  assumes "20 < n"
  shows "Math_pow2 (Fin (real_of_int n)) = (if n < 1024 then Fin (2 ^ nat n) else PInf)"
    and "overflow (Math_pow2 (Fin (real_of_int n)) * Fin 16) / Fin 1024 / Fin 1024 =
      (if n < 1020 then Fin (2 ^ nat n * 16 / 1024 / 1024) else PInf)"
proof -
  have p: "2 powr (real_of_int n) = 2 ^ nat n"
    using assms by (simp add: powr_realpow [symmetric])
  show c: "Math_pow2 (Fin (real_of_int n)) = (if n < 1024 then Fin (2 ^ nat n) else PInf)"
    using assms by (simp add: p)
  have big: "(2::real) ^ 1024 - 2 ^ 970 \<le> 2 ^ nat n * 16" if "1020 \<le> n"
  proof -
    have "(2::real) ^ 1020 \<le> 2 ^ nat n"
      using that by (intro power_increasing) simp_all
    then have "(2::real) ^ 1020 * 16 \<le> 2 ^ nat n * 16"
      by simp
    moreover have "(2::real) ^ 1024 - 2 ^ 970 \<le> 2 ^ 1020 * 16"
      by simp
    ultimately show ?thesis
      by (rule order_trans [rotated])
  qed
  have small: "(2::real) ^ nat n * 16 < 2 ^ 1024 - 2 ^ 970" if "n < 1020"
  proof -
    have "(2::real) ^ nat n \<le> 2 ^ 1019"
      using that by (intro power_increasing) simp_all
    then have "(2::real) ^ nat n * 16 \<le> 2 ^ 1019 * 16"
      by simp
    moreover have "(2::real) ^ 1019 * 16 < 2 ^ 1024 - 2 ^ 970"
      by simp
    ultimately show ?thesis
      by (rule le_less_trans)
  qed
  have neg: "\<not> (2::real) ^ nat n * 16 \<le> - (2 ^ 1024 - 2 ^ 970)"
  proof -
    have "(0::real) < 2 ^ nat n * 16" by simp
    moreover have "- ((2::real) ^ 1024 - 2 ^ 970) < 0" by simp
    ultimately show ?thesis by linarith
  qed
  show "overflow (Math_pow2 (Fin (real_of_int n)) * Fin 16) / Fin 1024 / Fin 1024 =
      (if n < 1020 then Fin (2 ^ nat n * 16 / 1024 / 1024) else PInf)"
  proof (cases "n < 1020")
    case True
    then have "overflow (Fin (2 ^ nat n * 16)) = Fin (2 ^ nat n * 16)"
      using small neg by (simp del: power_numeral)
    then show ?thesis
      using True by (simp add: c del: overflow.simps Math_pow2.simps)
  next
    case False
    show ?thesis
    proof (cases "n < 1024")
      case True
      have "overflow (Fin (2 ^ nat n * 16)) = PInf"
        using big False by (simp del: power_numeral)
      then show ?thesis
        using True False by (simp add: c del: overflow.simps Math_pow2.simps)
    next
      case False
      then show ?thesis
        by (simp add: c del: Math_pow2.simps)
    qed
  qed
qed


lemma validate_low:
  assumes "n < 1"
  shows "validateQubitCount (Fin (real_of_int n)) =
     Inl (QuantumValidationError [Txt ''Number of qubits must be at least '', Num (Fin 1)]
            INVALID_QUBIT_COUNT [(''numQubits'', Fin (real_of_int n)), (''min'', Fin 1)])"
  using assms by (simp add: validateQubitCount_def MIN_QUBITS_def)

lemma validate_high:
  assumes "20 < n"
  shows "validateQubitCount (Fin (real_of_int n)) =
     Inl (QuantumValidationError
            [Txt ''Number of qubits ('', Num (Fin (real_of_int n)), Txt '') exceeds maximum of '',
             Num (Fin 20), Txt ''. This would require '',
             Num (if n < 1024 then Fin (2 ^ nat n) else PInf),
             Txt '' amplitudes (~'',
             Num (if n < 1020 then Fin (2 ^ nat n * 16 / 1024 / 1024) else PInf),
             Txt ''MB memory)'']
            MEMORY_LIMIT [(''numQubits'', Fin (real_of_int n)), (''max'', Fin 20)])"
  unfolding validateQubitCount_def pow2_estimate(2) [OF assms]
  using assms
  by (simp add: MIN_QUBITS_def MAX_QUBITS_def pow2_estimate(1) del: Math_pow2.simps)

lemma validate_ok:
  assumes "1 \<le> n" "n \<le> 20"
  shows "validateQubitCount (Fin (real_of_int n)) = Inr ()"
  using assms by (simp add: validateQubitCount_def MIN_QUBITS_def MAX_QUBITS_def)

lemma flat_constructor_ok:
  assumes "n \<le> 51"
  shows "flat_constructor n =
     Inr \<lparr>numQubits = n, state = Fin 1 # replicate (2 * 2 ^ n - 1) (Fin 0)\<rparr>"
proof -
  have "(2::nat) ^ n \<le> 2 ^ 51"
    using assms by (rule power_increasing) simp
  then have le: "\<not> (2 ^ 53 - 1 < (2::nat) ^ n * 2)"
    by simp
  have "replicate (2 ^ n * 2) (Fin 0) = Fin 0 # replicate (2 * 2 ^ n - 1) (Fin 0)"
    by (cases "(2::nat) ^ n * 2") (simp_all add: mult.commute)
  then show ?thesis
    using le by (simp add: flat_constructor_def f64_set_def jsnum_arith Let_def del: power_Suc)
qed

lemma obj_constructor_ok:
  assumes "n \<le> 31"
  shows "obj_constructor n =
     Inr \<lparr>o_numQubits = n, o_state = ONE # replicate (2 ^ n - 1) ZERO,
          o_history = [ONE # replicate (2 ^ n - 1) ZERO], o_operations = []\<rparr>"
proof -
  have "(2::nat) ^ n \<le> 2 ^ 31"
    using assms by (rule power_increasing) simp
  then have le: "\<not> (2 ^ 32 - 1 < (2::nat) ^ n)"
    by simp
  have "replicate (2 ^ n) ZERO = ZERO # replicate (2 ^ n - 1) ZERO"
    by (cases "(2::nat) ^ n") simp_all
  then show ?thesis
    using le by (simp add: obj_constructor_def Let_def)
qed

text \<open>
  C4, as stated, fails: neither constructor checks the qubit count, so an engine of 0 or
  of 21 qubits is built like any other; and the failure \<open>validateQubitCount\<close> raises
  for a count below 1 states no size or memory estimate.
\<close>

theorem construction_unchecked_counterexample:
  "flat_constructor 0 = Inr \<lparr>numQubits = 0, state = [Fin 1, Fin 0]\<rparr>
   \<and> obj_constructor 0 =
       Inr \<lparr>o_numQubits = 0, o_state = [ONE], o_history = [[ONE]], o_operations = []\<rparr>
   \<and> flat_constructor 21 =
       Inr \<lparr>numQubits = 21, state = Fin 1 # replicate (2 * 2 ^ 21 - 1) (Fin 0)\<rparr>
   \<and> obj_constructor 21 =
       Inr \<lparr>o_numQubits = 21, o_state = ONE # replicate (2 ^ 21 - 1) ZERO,
            o_history = [ONE # replicate (2 ^ 21 - 1) ZERO], o_operations = []\<rparr>
   \<and> validateQubitCount (Fin 0) =
       Inl (QuantumValidationError [Txt ''Number of qubits must be at least '', Num (Fin 1)]
              INVALID_QUBIT_COUNT [(''numQubits'', Fin 0), (''min'', Fin 1)])
   \<and> \<not> carries_estimate
          (QuantumValidationError [Txt ''Number of qubits must be at least '', Num (Fin 1)]
             INVALID_QUBIT_COUNT [(''numQubits'', Fin 0), (''min'', Fin 1)])"
proof -
  have f0: "flat_constructor 0 = Inr \<lparr>numQubits = 0, state = [Fin 1, Fin 0]\<rparr>"
    using flat_constructor_ok [of 0] by simp
  have o0: "obj_constructor 0 =
       Inr \<lparr>o_numQubits = 0, o_state = [ONE], o_history = [[ONE]], o_operations = []\<rparr>"
    using obj_constructor_ok [of 0] by simp
  have v0: "validateQubitCount (Fin 0) =
       Inl (QuantumValidationError [Txt ''Number of qubits must be at least '', Num (Fin 1)]
              INVALID_QUBIT_COUNT [(''numQubits'', Fin 0), (''min'', Fin 1)])"
    using validate_low [of 0] by simp
  show ?thesis
    using f0 o0 v0 flat_constructor_ok [of 21] obj_constructor_ok [of 21] by simp
qed

text \<open>
  C4, amended.  \<open>validateQubitCount\<close> rejects every integer count outside [1, 20] with
  a typed failure: below 1 with the code INVALID_QUBIT_COUNT and no estimate, above 20
  with the code MEMORY_LIMIT and a message stating the amplitude count
  \<open>Math.pow(2, n)\<close> and the estimate \<open>Math.pow(2, n) * 16 / 1024 / 1024\<close> in megabytes,
  which are 2^n while n is below 1024 and 2^n * 16 / 1024 / 1024 while n is below 1020,
  and Infinity from there on; it accepts every count in [1, 20].  The constructors do
  not call it.  For every count in [1, 20] both constructors succeed, and the state they
  build has amplitude 1 at index 0 and 0 everywhere else.
\<close>

theorem qubit_count_validation:
  "(n < 1 \<longrightarrow>
      validateQubitCount (Fin (real_of_int n)) =
        Inl (QuantumValidationError [Txt ''Number of qubits must be at least '', Num (Fin 1)]
               INVALID_QUBIT_COUNT [(''numQubits'', Fin (real_of_int n)), (''min'', Fin 1)]))
   \<and> (20 < n \<longrightarrow>
      validateQubitCount (Fin (real_of_int n)) =
        Inl (QuantumValidationError
               [Txt ''Number of qubits ('', Num (Fin (real_of_int n)),
                Txt '') exceeds maximum of '', Num (Fin 20), Txt ''. This would require '',
                Num (if n < 1024 then Fin (2 ^ nat n) else PInf), Txt '' amplitudes (~'',
                Num (if n < 1020 then Fin (2 ^ nat n * 16 / 1024 / 1024) else PInf),
                Txt ''MB memory)'']
               MEMORY_LIMIT [(''numQubits'', Fin (real_of_int n)), (''max'', Fin 20)]))
   \<and> (1 \<le> n \<and> n \<le> 20 \<longrightarrow>
      validateQubitCount (Fin (real_of_int n)) = Inr ()
      \<and> flat_constructor (nat n) =
          Inr \<lparr>numQubits = nat n, state = Fin 1 # replicate (2 * 2 ^ nat n - 1) (Fin 0)\<rparr>
      \<and> obj_constructor (nat n) =
          Inr \<lparr>o_numQubits = nat n, o_state = ONE # replicate (2 ^ nat n - 1) ZERO,
               o_history = [ONE # replicate (2 ^ nat n - 1) ZERO], o_operations = []\<rparr>)"
  using validate_low [of n] validate_high [of n] validate_ok [of n]
    flat_constructor_ok [of "nat n"] obj_constructor_ok [of "nat n"]
  by auto

theorem qubit_count_validation_witness:
  "validateQubitCount (Fin 0) =
     Inl (QuantumValidationError [Txt ''Number of qubits must be at least '', Num (Fin 1)]
            INVALID_QUBIT_COUNT [(''numQubits'', Fin 0), (''min'', Fin 1)])
   \<and> validateQubitCount (Fin 21) =
     Inl (QuantumValidationError
            [Txt ''Number of qubits ('', Num (Fin 21), Txt '') exceeds maximum of '',
             Num (Fin 20), Txt ''. This would require '', Num (Fin 2097152),
             Txt '' amplitudes (~'', Num (Fin 32), Txt ''MB memory)'']
            MEMORY_LIMIT [(''numQubits'', Fin 21), (''max'', Fin 20)])
   \<and> validateQubitCount (Fin 1020) =
     Inl (QuantumValidationError
            [Txt ''Number of qubits ('', Num (Fin 1020), Txt '') exceeds maximum of '',
             Num (Fin 20), Txt ''. This would require '', Num (Fin (2 ^ 1020)),
             Txt '' amplitudes (~'', Num PInf, Txt ''MB memory)'']
            MEMORY_LIMIT [(''numQubits'', Fin 1020), (''max'', Fin 20)])
   \<and> validateQubitCount (Fin 1024) =
     Inl (QuantumValidationError
            [Txt ''Number of qubits ('', Num (Fin 1024), Txt '') exceeds maximum of '',
             Num (Fin 20), Txt ''. This would require '', Num PInf,
             Txt '' amplitudes (~'', Num PInf, Txt ''MB memory)'']
            MEMORY_LIMIT [(''numQubits'', Fin 1024), (''max'', Fin 20)])
   \<and> validateQubitCount (Fin 2) = Inr ()
   \<and> flat_constructor 2 =
       Inr \<lparr>numQubits = 2, state = [Fin 1, Fin 0, Fin 0, Fin 0, Fin 0, Fin 0, Fin 0, Fin 0]\<rparr>
   \<and> obj_constructor 2 =
       Inr \<lparr>o_numQubits = 2, o_state = [ONE, ZERO, ZERO, ZERO],
            o_history = [[ONE, ZERO, ZERO, ZERO]], o_operations = []\<rparr>"
proof -
  have r: "replicate 7 (Fin 0) = [Fin 0, Fin 0, Fin 0, Fin 0, Fin 0, Fin 0, Fin 0]"
    "replicate 3 ZERO = [ZERO, ZERO, ZERO]"
    by (simp_all add: numeral_eq_Suc)
  show ?thesis
    using qubit_count_validation [of 0] qubit_count_validation [of 21]
      qubit_count_validation [of 1020] qubit_count_validation [of 1024]
      qubit_count_validation [of 2]
    by (simp add: r)
qed

subsection \<open>Sampling\<close>
























subsection \<open>Unchecked gate applications in the flat-array simulator\<close>

lemma lookup_X: "map_of GATE_LIBRARY ''X'' = Some (constant_gate ''Pauli-X'' 1 X)"
  by (simp add: GATE_LIBRARY_def)

lemma lookup_Rx:
  "map_of GATE_LIBRARY ''Rx'' =
     Some (parameterized_gate ''X Rotation'' 1 (\<lambda>p. Rx (param p 0)) [''theta''])"
  by (simp add: GATE_LIBRARY_def)

lemma js_bits_eval:
  "js_shl 1 (shift_count (Suc 0) (Some 1)) = - 2147483648"
  "js_shl 1 (shift_count (Suc 0) (Some 0)) = 1"
  "js_and 0 (- 2147483648) = 0" "js_and 1 (- 2147483648) = 0"
  "js_or 0 (- 2147483648) = - 2147483648" "js_or 1 (- 2147483648) = - 2147483647"
  "js_and 0 1 = 0" "js_and 1 1 = 1" "js_or 0 1 = 1"
  by (simp_all add: js_shl_def shift_count_def js_and_def js_or_def)

lemma flat_X_step0: "flat_single_step X (- 2147483648) 0 [1, 0, 0, 0] = [NaN, NaN, 0, 0]"
  by (simp add: flat_single_step_def js_bits_eval X_def complex_def f64_get_def f64_set_def
      jsnum_arith Let_def)

lemma flat_X_step1:
  "flat_single_step X (- 2147483648) (Suc 0) [NaN, NaN, 0, 0] = [NaN, NaN, NaN, NaN]"
  by (simp add: flat_single_step_def js_bits_eval X_def complex_def f64_get_def f64_set_def
      jsnum_arith Let_def)

lemma flat_X_single:
  "flat_applySingleQubitGate X (Some 1) \<lparr>numQubits = Suc 0, state = [1, 0, 0, 0]\<rparr>
     = \<lparr>numQubits = Suc 0, state = [NaN, NaN, NaN, NaN]\<rparr>"
  by (simp add: flat_applySingleQubitGate_def js_bits_eval upt_rec flat_X_step0 flat_X_step1)

text \<open>
  C1 is not what the flat-array simulator does.  On the one-qubit engine in its initial
  state, \<open>apply('X', 1)\<close> names a qubit index equal to the qubit count.  Nothing checks
  it: the mask \<open>1 << -1\<close> is -2^31, every partner index is negative, the reads there
  give \<open>undefined\<close>, and the call returns normally with NaN in every entry of the buffer.
\<close>

theorem flat_apply_out_of_range_corrupts_state:
  "flat_constructor 1 = Inr \<lparr>numQubits = 1, state = [1, 0, 0, 0]\<rparr>
   \<and> flat_apply ''X'' [] [1] \<lparr>numQubits = 1, state = [1, 0, 0, 0]\<rparr>
       = (None, \<lparr>numQubits = 1, state = [NaN, NaN, NaN, NaN]\<rparr>)"
proof -
  have "replicate 3 (Fin 0) = [Fin 0, Fin 0, Fin 0]"
    by (simp add: numeral_eq_Suc)
  then have "flat_constructor 1 = Inr \<lparr>numQubits = 1, state = [1, 0, 0, 0]\<rparr>"
    using flat_constructor_ok [of 1] by (simp add: jsnum_arith)
  then show ?thesis
    by (simp add: flat_apply_def lookup_X constant_gate_def gate_matrix_def qubit_arg_def
        flat_X_single)
qed

lemma Rx_NaN: "Rx NaN = [[complex NaN 0, complex 0 NaN], [complex 0 NaN, complex NaN 0]]"
  by (simp add: Rx_def)

lemma flat_Rx_step0: "flat_single_step (Rx NaN) 1 0 [1, 0, 0, 0] = [NaN, NaN, NaN, NaN]"
  by (simp add: flat_single_step_def js_bits_eval Rx_NaN complex_def f64_get_def f64_set_def
      jsnum_arith Let_def)

lemma flat_Rx_step1:
  "flat_single_step (Rx NaN) 1 (Suc 0) [NaN, NaN, NaN, NaN] = [NaN, NaN, NaN, NaN]"
  by (simp add: flat_single_step_def js_bits_eval)

lemma flat_Rx_single:
  "flat_applySingleQubitGate (Rx NaN) (Some 0) \<lparr>numQubits = Suc 0, state = [1, 0, 0, 0]\<rparr>
     = \<lparr>numQubits = Suc 0, state = [NaN, NaN, NaN, NaN]\<rparr>"
  by (simp add: flat_applySingleQubitGate_def js_bits_eval upt_rec flat_Rx_step0 flat_Rx_step1)

text \<open>
  C7 is not what the flat-array simulator does.  \<open>apply('Rx', [NaN], 0)\<close> evaluates the
  rotation matrix at NaN, every entry computed from the angle is NaN, and the call
  returns normally after writing NaN into every entry of the buffer.
\<close>

theorem flat_apply_NaN_matrix_corrupts_state:
  "has_NaN (Rx NaN)
   \<and> flat_apply ''Rx'' [NaN] [0] \<lparr>numQubits = 1, state = [1, 0, 0, 0]\<rparr>
       = (None, \<lparr>numQubits = 1, state = [NaN, NaN, NaN, NaN]\<rparr>)"
proof -
  have "has_NaN (Rx NaN)"
    by (simp add: has_NaN_def Rx_NaN complex_def)
  moreover have "flat_apply ''Rx'' [NaN] [0] \<lparr>numQubits = 1, state = [1, 0, 0, 0]\<rparr>
       = (None, \<lparr>numQubits = 1, state = [NaN, NaN, NaN, NaN]\<rparr>)"
    by (simp add: flat_apply_def lookup_Rx parameterized_gate_def gate_matrix_def qubit_arg_def
        param_def flat_Rx_single)
  ultimately show ?thesis by simp
qed

subsection \<open>The checks of the object-per-amplitude simulator\<close>

text \<open>
  The object-per-amplitude simulator does check.  A matrix with a NaN entry is refused
  before anything changes.  An index out of range is refused by the one- and two-qubit
  routines, after \<open>apply\<close> has appended the operation to the log; the state and the
  history are unchanged.  The general routine for three qubits and more has no check: an
  index equal to the qubit count leads to a read outside the new state array, and the call
  ends in a TypeError.
\<close>

lemma obj_apply_rejects_NaN:
  assumes "map_of GATE_LIBRARY g = Some info" and "has_NaN (gate_matrix info ps)"
  shows "obj_apply g ps qs s =
     (Some (Error [Txt ''Gate '', Txt g, Txt '' produced NaN matrix elements with params '',
              Nums ps]), s)"
  using assms by (simp add: obj_apply_def Let_def)

lemma obj_apply_Rx_NaN:
  "obj_apply ''Rx'' [NaN] [0] s =
     (Some (Error [Txt ''Gate '', Txt ''Rx'', Txt '' produced NaN matrix elements with params '',
              Nums [NaN]]), s)"
proof (rule obj_apply_rejects_NaN [OF lookup_Rx])
  show "has_NaN (gate_matrix (parameterized_gate ''X Rotation'' 1 (\<lambda>p. Rx (param p 0)) [''theta'']) [NaN])"
    by (simp add: gate_matrix_def parameterized_gate_def param_def has_NaN_def Rx_NaN complex_def)
qed

lemma obj_apply_out_of_range:
  assumes "map_of GATE_LIBRARY g = Some info" and "\<not> has_NaN (gate_matrix info ps)"
    and "qubits info = 1" and "q < 0 \<or> int (o_numQubits s) \<le> q"
  shows "obj_apply g ps (q # qs) s =
     (Some (Error [Txt ''Invalid qubit index: '', Num (Fin (real_of_int q))]),
      s\<lparr>o_operations := o_operations s @
           [\<lparr>op_gate = g, op_qubits = q # qs, op_params = Some ps\<rparr>]\<rparr>)"
  using assms
  by (simp add: obj_apply_def Let_def qubit_arg_def obj_applySingleQubitGate_def)

lemma obj_apply_two_out_of_range:
  assumes "map_of GATE_LIBRARY g = Some info" and "\<not> has_NaN (gate_matrix info ps)"
    and "qubits info = 2"
    and "q1 < 0 \<or> int (o_numQubits s) \<le> q1 \<or> q2 < 0 \<or> int (o_numQubits s) \<le> q2"
  shows "obj_apply g ps (q1 # q2 # qs) s =
     (Some (Error [Txt ''Invalid qubit indices: '',
              Nums [Fin (real_of_int q1), Fin (real_of_int q2)]]),
      s\<lparr>o_operations := o_operations s @
           [\<lparr>op_gate = g, op_qubits = q1 # q2 # qs, op_params = Some ps\<rparr>]\<rparr>)"
  using assms
  by (auto simp add: obj_apply_def Let_def qubit_arg_def obj_applyTwoQubitGate_def)


lemma lookup_Toffoli: "map_of GATE_LIBRARY ''Toffoli'' = Some (constant_gate ''Toffoli'' 3 Toffoli)"
  by (simp add: GATE_LIBRARY_def)

lemma Toffoli_rows:
  "Toffoli =
    [[complex 1 0, ZERO, ZERO, ZERO, ZERO, ZERO, ZERO, ZERO],
     [ZERO, complex 1 0, ZERO, ZERO, ZERO, ZERO, ZERO, ZERO],
     [ZERO, ZERO, complex 1 0, ZERO, ZERO, ZERO, ZERO, ZERO],
     [ZERO, ZERO, ZERO, complex 1 0, ZERO, ZERO, ZERO, ZERO],
     [ZERO, ZERO, ZERO, ZERO, complex 1 0, ZERO, ZERO, ZERO],
     [ZERO, ZERO, ZERO, ZERO, ZERO, complex 1 0, ZERO, ZERO],
     [ZERO, ZERO, ZERO, ZERO, ZERO, ZERO, complex 0 0, complex 1 0],
     [ZERO, ZERO, ZERO, ZERO, ZERO, ZERO, complex 1 0, complex 0 0]]"
  by (simp add: Toffoli_def matrix_eval)

lemma obj_Toffoli_out_of_range:
  "obj_apply ''Toffoli'' [] [0, 1, 3]
     \<lparr>o_numQubits = 3, o_state = [ONE, ZERO, ZERO, ZERO, ZERO, ZERO, ZERO, ZERO],
      o_history = [[ONE, ZERO, ZERO, ZERO, ZERO, ZERO, ZERO, ZERO]], o_operations = []\<rparr>
   = (Some TypeError,
      \<lparr>o_numQubits = 3, o_state = [ONE, ZERO, ZERO, ZERO, ZERO, ZERO, ZERO, ZERO],
       o_history = [[ONE, ZERO, ZERO, ZERO, ZERO, ZERO, ZERO, ZERO]],
       o_operations = [\<lparr>op_gate = ''Toffoli'', op_qubits = [0, 1, 3], op_params = Some []\<rparr>]\<rparr>)"
proof -
  let ?st = "[ONE, ZERO, ZERO, ZERO, ZERO, ZERO, ZERO, ZERO]"
  have nn: "\<not> has_NaN Toffoli"
    by (simp add: Toffoli_rows has_NaN_def complex_def ZERO_def jsnum_arith)
  have up3: "[0..<3] = [0, Suc 0, Suc (Suc 0)]"
    by (simp add: upt_rec)
  have bits: "js_sar 0 k = 0" "js_and 0 1 = 0" "js_shl 0 k = 0" "js_or 0 0 = 0"
    "js_and 0 k = 0" "js_sar 1 0 = 1" "js_sar 1 1 = 0" "js_sar 1 2 = 0" "js_and 1 1 = 1"
    "js_shl 1 (- 1) = - 2147483648" "js_or 0 (- 2147483648) = - 2147483648" for k
    by (simp_all add: js_sar_def js_and_def js_shl_def js_or_def)
  have in0: "obj_multi_inner Toffoli 3 [0, 1, 3] ONE 0 0 0 (replicate 8 ZERO)
               = (None, (replicate 8 ZERO)[0 := add ZERO (multiply (complex 1 0) ONE)])"
    by (simp add: obj_multi_inner_def up3 bits Let_def mat_get_def Toffoli_rows arr_get_def)
  have in1: "obj_multi_inner Toffoli 3 [0, 1, 3] ONE 0 0 (Suc 0) xs = (Some TypeError, xs)" for xs
    by (simp add: obj_multi_inner_def up3 bits Let_def arr_get_def split: option.split)
  have out0: "obj_multi_outer Toffoli 3 [0, 1, 3] ?st 0 (replicate 8 ZERO)
               = (Some TypeError, (replicate 8 ZERO)[0 := add ZERO (multiply (complex 1 0) ONE)])"
    by (simp add: obj_multi_outer_def up3 bits Let_def upt_rec [of 0 8] upt_rec [of "Suc 0" 8]
        in0 in1)
  have "obj_applyMultiQubitGate Toffoli [0, 1, 3] t = (Some TypeError, t)"
    if "o_numQubits t = 3" "o_state t = ?st" for t
    using that by (simp add: obj_applyMultiQubitGate_def Let_def upt_rec [of 0 8] out0)
  then show ?thesis
    by (simp add: obj_apply_def lookup_Toffoli constant_gate_def gate_matrix_def nn Let_def)
qed

subsection \<open>Initialization at an index out of range\<close>

lemma stateNorm_zero: "stateNorm (replicate k ZERO) = Fin 0"
proof -
  have "fold (\<lambda>amp sum. sum + magnitudeSquared amp) (replicate k ZERO) (Fin 0) = Fin 0"
    by (induction k) (simp_all add: magnitudeSquared_def ZERO_def jsnum_arith)
  then show ?thesis
    by (simp add: stateNorm_def jsnum_arith)
qed

text \<open>
  C9.  For an integer index below 0 or at least 2^n, \<open>initialize\<close> returns without a
  failure; the state it leaves has 2^n entries, all zero, so its squared norm is 0; the
  history holds that state alone and the operation log is empty.  \<open>setState\<close> itself
  would refuse that state as not normalized.
\<close>

theorem initialize_out_of_range:
  assumes "idx < 0 \<or> 2 ^ o_numQubits s \<le> idx"
  shows "obj_initialize (Fin (real_of_int idx)) s =
           (None, s\<lparr>o_state := replicate (2 ^ o_numQubits s) ZERO,
                    o_history := [replicate (2 ^ o_numQubits s) ZERO],
                    o_operations := []\<rparr>)
       \<and> stateNorm (o_state (snd (obj_initialize (Fin (real_of_int idx)) s))) = Fin 0
       \<and> fst (obj_setState (replicate (2 ^ o_numQubits s) ZERO) s) =
           Some (Error [Txt ''State vector must be normalized (norm = '', Num (Fin 0),
                   Txt '')''])"
proof -
  have init: "obj_initialize (Fin (real_of_int idx)) s =
           (None, s\<lparr>o_state := replicate (2 ^ o_numQubits s) ZERO,
                    o_history := [replicate (2 ^ o_numQubits s) ZERO],
                    o_operations := []\<rparr>)"
    using assms by (auto simp add: obj_initialize_def Let_def)
  have set: "fst (obj_setState (replicate (2 ^ o_numQubits s) ZERO) s) =
           Some (Error [Txt ''State vector must be normalized (norm = '', Num (Fin 0),
                   Txt '')''])"
    by (simp add: obj_setState_def Let_def stateNorm_zero jsnum_arith)
  show ?thesis
    using init set by (simp add: stateNorm_zero)
qed

theorem initialize_out_of_range_witness:
  "((2::int) < 0 \<or> 2 ^ o_numQubits \<lparr>o_numQubits = 1, o_state = [ONE, ZERO],
        o_history = [[ONE, ZERO]], o_operations = []\<rparr> \<le> (2::int))
   \<and> obj_initialize (Fin 2)
        \<lparr>o_numQubits = 1, o_state = [ONE, ZERO], o_history = [[ONE, ZERO]], o_operations = []\<rparr>
      = (None, \<lparr>o_numQubits = 1, o_state = [ZERO, ZERO], o_history = [[ZERO, ZERO]],
                o_operations = []\<rparr>)"
proof -
  let ?s = "\<lparr>o_numQubits = 1, o_state = [ONE, ZERO], o_history = [[ONE, ZERO]],
             o_operations = []\<rparr>"
  have h: "(2::int) < 0 \<or> 2 ^ o_numQubits ?s \<le> (2::int)"
    by simp
  have r: "replicate 2 ZERO = [ZERO, ZERO]"
    by (simp add: numeral_eq_Suc)
  from initialize_out_of_range [OF h] h show ?thesis
    by (simp add: r)
qed


subsection \<open>The bit operators on indices\<close>

text \<open>
  On the indices of an engine of at most 31 qubits the 32-bit operators are the bit
  operations of the natural numbers.
\<close>

lemma sint_small: "- (2 ^ 31) \<le> a \<Longrightarrow> a < 2 ^ 31 \<Longrightarrow> sint (word_of_int a :: 32 word) = a"
  by (simp add: sint_sbintrunc' signed_take_bit_int_eq_self)

lemma js_and_small:
  "0 \<le> a \<Longrightarrow> a < 2 ^ 31 \<Longrightarrow> 0 \<le> b \<Longrightarrow> b < 2 ^ 31 \<Longrightarrow> js_and a b = a AND b"
  by (simp add: js_and_def signed_and_eq sint_small)



lemma js_sar_small:
  assumes "0 \<le> a" "a < 2 ^ 31" "0 \<le> k" "k < 32"
  shows "js_sar a k = a div 2 ^ nat k"
proof -
  have m: "k mod 32 = k"
    using assms by simp
  show ?thesis
    using assms by (simp add: js_sar_def m sint_signed_drop_bit_eq sint_small drop_bit_eq_div)
qed

text \<open>The indices of an engine of at most 31 qubits are below 2^31.\<close>

lemma index_bounds:
  assumes "i < 2 ^ n" "n \<le> 31"
  shows "0 \<le> int i" "int i < 2 ^ 31"
proof -
  have "(2::nat) ^ n \<le> 2 ^ 31"
    using assms(2) by (rule power_increasing) simp
  then have "i < 2 ^ 31"
    using assms(1) by simp
  then show "int i < 2 ^ 31"
    by (metis of_nat_less_iff of_nat_numeral of_nat_power)
qed simp

lemma measured_bit_eq:
  assumes "i < 2 ^ n" "n \<le> 31" "0 \<le> q" "q < int n"
  shows "measured_bit n q i = (if qubit_value n q i then 1 else 0)"
proof -
  let ?k = "int n - 1 - q"
  have k: "0 \<le> ?k" "?k < 32"
    using assms by simp_all
  have sar: "js_sar (int i) ?k = int i div 2 ^ nat ?k"
    using index_bounds [OF assms(1,2)] k by (intro js_sar_small) simp_all
  have dn: "int i div 2 ^ nat ?k = int (i div 2 ^ nat ?k)"
    by (simp add: zdiv_int)
  have "i div 2 ^ nat ?k \<le> i"
    by (rule div_le_dividend)
  then have "int (i div 2 ^ nat ?k) \<le> int i"
    by simp
  then have d1: "int (i div 2 ^ nat ?k) < 2 ^ 31"
    using index_bounds(2) [OF assms(1,2)] by linarith
  have "js_and (int i div 2 ^ nat ?k) 1 = (int i div 2 ^ nat ?k) AND 1"
    unfolding dn using d1 by (intro js_and_small) simp_all
  also have "\<dots> = (int i div 2 ^ nat ?k) mod 2"
    by (simp add: and_one_eq)
  also have "\<dots> = (if bit (int i) (nat ?k) then 1 else 0)"
    by (simp add: bit_iff_odd mod_2_eq_odd)
  finally show ?thesis
    by (simp add: measured_bit_def sar qubit_value_def bit_of_nat_iff_bit)
qed


lemma jsnum_neg_mult: "- (a * b) = a * (- b)" for a b :: jsnum
  by (cases a; cases b) auto





subsection \<open>Measurement\<close>

lemma fold_two_sums:
  fixes f :: "nat \<Rightarrow> jsnum"
  shows "fold (\<lambda>i (p0, p1). let prob = f i in if c i then (p0 + prob, p1) else (p0, p1 + prob))
           xs (a, b)
       = (a + (\<Sum>i\<leftarrow>filter c xs. f i), b + (\<Sum>i\<leftarrow>filter (\<lambda>i. \<not> c i) xs. f i))"
  by (induction xs arbitrary: a b) (simp_all add: Let_def add.assoc)

lemma measure_probs:
  assumes "n \<le> 31" "0 \<le> q" "q < int n"
  shows "bit_probabilities n q st = (group_probability n q st False, group_probability n q st True)"
proof -
  have c: "(measured_bit n q i = 0) = (qubit_value n q i = False)" if "i \<in> set [0..<2 ^ n]" for i
    using that measured_bit_eq [of i n q] assms by simp
  have f0: "filter (\<lambda>i. measured_bit n q i = 0) [0..<2 ^ n]
          = filter (\<lambda>i. qubit_value n q i = False) [0..<2 ^ n]"
    by (rule filter_cong) (use c in auto)
  have f1: "filter (\<lambda>i. \<not> measured_bit n q i = 0) [0..<2 ^ n]
          = filter (\<lambda>i. qubit_value n q i = True) [0..<2 ^ n]"
    by (rule filter_cong) (use c in auto)
  show ?thesis
    unfolding bit_probabilities_def fold_two_sums group_probability_def f0 f1 by simp
qed

lemma measure_collapse:
  assumes "n \<le> 31" "0 \<le> q" "q < int n"
  shows "collapsed n q st (if b then 1 else 0) (1 / Math_sqrt p) = collapse n q st b p"
proof -
  have "map (\<lambda>i. if measured_bit n q i = int (if b then 1 else 0)
                    then scale (st ! i) (1 / Math_sqrt p) else ZERO) [0..<2 ^ n]
      = map (\<lambda>i. if qubit_value n q i = b then scale (st ! i) (1 / Math_sqrt p) else ZERO)
          [0..<2 ^ n]"
    by (rule map_cong) (use measured_bit_eq [of _ n q] assms in auto)
  then show ?thesis
    by (simp add: collapsed_def collapse_def fold_push_map)
qed

text \<open>
  C5.  For a qubit index in range, \<open>measure\<close> returns normally.  The probabilities
  are the sums of the squared magnitudes grouped by the target bit; the outcome is 0 when
  the one random draw is below the probability of 0, and 1 otherwise; the amplitudes whose
  bit differs from the outcome are set to zero and the others are rescaled by
  1 / sqrt(p), where p is the probability of the outcome; the result holds the outcome,
  p and the collapsed state, which is also the new state of the simulator, appended to
  the history and logged as a MEASURE operation.
\<close>

theorem measure_computes:
  assumes "0 \<le> q" and "q < int (o_numQubits s)" and "o_numQubits s \<le> 31"
  shows "obj_measure q r s =
    (let n = o_numQubits s;
         one = (\<not> Fin r < group_probability n q (o_state s) False);
         p = group_probability n q (o_state s) one;
         post = collapse n q (o_state s) one p
     in (Inr \<lparr>outcome = (if one then 1 else 0), probability = p, collapsedState = post\<rparr>,
         s\<lparr>o_state := post,
           o_history := o_history s @ [post],
           o_operations := o_operations s @
             [\<lparr>op_gate = ''MEASURE'', op_qubits = [q], op_params = None\<rparr>]\<rparr>))"
proof -
  let ?n = "o_numQubits s"
  note p = measure_probs [OF assms(3,1,2), of "o_state s"]
  note c = measure_collapse [OF assms(3,1,2)]
  show ?thesis
  proof (cases "Fin r < group_probability ?n q (o_state s) False")
    case True
    then show ?thesis
      using assms c [of "o_state s" False]
      by (simp add: obj_measure_def p Let_def)
  next
    case False
    then show ?thesis
      using assms c [of "o_state s" True]
      by (simp add: obj_measure_def p Let_def)
  qed
qed


theorem measure_computes_witness:
  "(0::int) \<le> 0
   \<and> (0::int) < int (o_numQubits \<lparr>o_numQubits = 1,
          o_state = [\<lparr>creal = Fin (3 / 5), cimag = Fin 0\<rparr>, \<lparr>creal = Fin (4 / 5), cimag = Fin 0\<rparr>],
          o_history = [], o_operations = []\<rparr>)
   \<and> obj_measure 0 (1 / 2)
        \<lparr>o_numQubits = 1,
         o_state = [\<lparr>creal = Fin (3 / 5), cimag = Fin 0\<rparr>, \<lparr>creal = Fin (4 / 5), cimag = Fin 0\<rparr>],
         o_history = [], o_operations = []\<rparr>
     = (Inr \<lparr>outcome = 1, probability = Fin (16 / 25), collapsedState = [ZERO, ONE]\<rparr>,
        \<lparr>o_numQubits = 1, o_state = [ZERO, ONE], o_history = [[ZERO, ONE]],
         o_operations = [\<lparr>op_gate = ''MEASURE'', op_qubits = [0], op_params = None\<rparr>]\<rparr>)"
proof -
  let ?st = "[\<lparr>creal = Fin (3 / 5), cimag = Fin 0\<rparr>, \<lparr>creal = Fin (4 / 5), cimag = Fin 0\<rparr>]"
  let ?s = "\<lparr>o_numQubits = 1, o_state = ?st, o_history = [], o_operations = []\<rparr>"
  have h: "(0::int) \<le> 0" "(0::int) < int (o_numQubits ?s)" "o_numQubits ?s \<le> 31"
    by simp_all
  have qv: "qubit_value (Suc 0) 0 0 = False" "qubit_value (Suc 0) 0 (Suc 0) = True"
    by (simp_all add: qubit_value_def bit_0)
  have p0: "group_probability (Suc 0) 0 ?st False = Fin (9 / 25)"
    by (simp add: group_probability_def upt_rec qv magnitudeSquared_def)
  have p1: "group_probability (Suc 0) 0 ?st True = Fin (16 / 25)"
    by (simp add: group_probability_def upt_rec qv magnitudeSquared_def)
  have sq: "sqrt (16 / 25) = 4 / 5"
    by (rule real_sqrt_unique) (simp_all add: power2_eq_square)
  have c: "collapse (Suc 0) 0 ?st True (Fin (16 / 25)) = [ZERO, ONE]"
    by (simp add: collapse_def upt_rec qv scale_def sq ZERO_def ONE_def jsnum_arith)
  from measure_computes [OF h, of "1 / 2"] h show ?thesis
    by (simp add: Let_def p0 p1 c)
qed



subsection \<open>Bloch coordinates\<close>












lemma js_bits_one:
  "js_shl 1 0 = 1" "js_and (int (Suc 0)) 1 = 1"
  by (simp_all add: js_shl_def js_and_def)




lemma flat_bloch_H_inexact:
  "bloch_x (flat_getBlochCoordinates 0
        \<lparr>numQubits = 1, state = [SQRT2_INV, Fin 0, SQRT2_INV, Fin 0]\<rparr>) \<noteq> Fin 1"
  by (simp add: flat_getBlochCoordinates_def js_bits_one upt_rec
      flat_bloch_step_def js_bits_eval f64_get_def SQRT2_INV_def jsnum_arith Let_def)








end
